theory Spec2Isabelle
  imports Complex_Main "HOL-Library.Sublist" "HOL-Library.Option_ord" "HOL-Library.AList"
    "HOL-Library.List_Lexorder" "HOL-Library.Char_ord"
begin

section \<open>Python values, exceptions and string primitives\<close>

text \<open>
  Exceptions of the Python code are values: every function that can raise returns
  \<open>py_error + 'a\<close>, with \<open>Inl\<close> the exception that leaves the function.
  \<open>ExternalError\<close> stands for an exception raised inside an external collaborator
  (embedding service, language-model service, retriever object).
\<close>

datatype py_error =
    IndexError
  | KeyError
  | TypeError
  | ValueError
  | AttributeError
  | SyntaxError
  | ExternalError string

text \<open>\<open>sub in s\<close> on Python strings: \<open>sub\<close> occurs in \<open>s\<close> as a contiguous substring.\<close>

fun py_in :: "string \<Rightarrow> string \<Rightarrow> bool" where
  "py_in sub [] = (sub = [])"
| "py_in sub (c # cs) = (prefix sub (c # cs) \<or> py_in sub cs)"

text \<open>
  \<open>s.split(sep)\<close> for a non-empty separator: the text is scanned from the left, every
  occurrence of \<open>sep\<close> found ends the current piece and scanning goes on behind it.
  \<open>acc\<close> holds the current piece, reversed. (Python raises ValueError on an empty
  separator; the code only splits on the constants \<open>_\<close>, \<open>astro-ph\<close>, \<open>{\<close> and
  newline, so that branch is not reachable and an empty \<open>sep\<close> never matches here.)
\<close>

function split_from :: "string \<Rightarrow> string \<Rightarrow> string \<Rightarrow> string list" where
  "split_from sep acc [] = [rev acc]"
| "split_from sep acc (c # cs) =
     (if sep \<noteq> [] \<and> prefix sep (c # cs)
      then rev acc # split_from sep [] (drop (length sep) (c # cs))
      else split_from sep (c # acc) cs)"
  by pat_completeness auto
termination
  by (relation "measure (\<lambda>(sep, acc, s). length s)") (auto simp: Suc_le_eq)

definition py_split :: "string \<Rightarrow> string \<Rightarrow> string list" where
  "py_split s sep = split_from sep [] s"

text \<open>\<open>s.replace(c, '')\<close> for a one-character \<open>c\<close>: every occurrence is removed.\<close>

definition py_remove_char :: "char \<Rightarrow> string \<Rightarrow> string" where
  "py_remove_char c s = filter (\<lambda>x. x \<noteq> c) s"

text \<open>
  \<open>xs[i]\<close> on a Python list or a one-dimensional numpy array: a negative index counts
  from the end, an index out of range raises IndexError.
\<close>

definition py_index :: "'a list \<Rightarrow> int \<Rightarrow> py_error + 'a" where
  "py_index xs i =
     (let len = int (length xs); j = (if i < 0 then len + i else i)
      in if 0 \<le> j \<and> j < len then Inr (xs ! nat j) else Inl IndexError)"

text \<open>\<open>str(i)\<close> for a Python int: decimal digits, with a minus sign when negative.\<close>

function str_nat :: "nat \<Rightarrow> string" where
  "str_nat k =
     (if k < 10 then [''0123456789'' ! k]
      else str_nat (k div 10) @ [''0123456789'' ! (k mod 10)])"
  by pat_completeness auto
termination
  by (relation "measure id") auto

definition str_int :: "int \<Rightarrow> string" where
  "str_int i = (if i < 0 then ''-'' @ str_nat (nat (- i)) else str_nat (nat i))"

section \<open>app.py: paper links\<close>

text \<open>
  \<^verbatim>\<open>
  def format_paper_link(paper_id):
      if '.txt' in paper_id:
          arxiv_id = paper_id.split('_')[0].split('astro-ph')[-1]
          return f"https://arxiv.org/abs/astro-ph/{arxiv_id}"
      else:
          return f"https://arxiv.org/abs/{paper_id}"
  \<close>
  \<open>split\<close> never returns an empty list, so \<open>[0]\<close> and \<open>[-1]\<close> cannot raise
  (\<open>split_from_not_Nil\<close> below); \<open>hd\<close> and \<open>last\<close> are used on non-empty lists only.
\<close>

definition format_paper_link :: "string \<Rightarrow> string" where
  "format_paper_link paper_id =
     (if py_in ''.txt'' paper_id
      then (let arxiv_id = last (py_split (hd (py_split paper_id ''_'')) ''astro-ph'')
            in ''https://arxiv.org/abs/astro-ph/'' @ arxiv_id)
      else ''https://arxiv.org/abs/'' @ paper_id)"

text \<open>
  The rule as the specification words it: the substring before the first underscore,
  with an \<open>astro-ph\<close> prefix stripped.
\<close>

definition spec_strip_prefix :: "string \<Rightarrow> string \<Rightarrow> string" where
  "spec_strip_prefix p s = (if prefix p s then drop (length p) s else s)"

definition spec_paper_link :: "string \<Rightarrow> string" where
  "spec_paper_link paper_id =
     (if py_in ''.txt'' paper_id
      then ''https://arxiv.org/abs/astro-ph/'' @
           spec_strip_prefix ''astro-ph'' (takeWhile (\<lambda>c. c \<noteq> CHR ''_'') paper_id)
      else ''https://arxiv.org/abs/'' @ paper_id)"

section \<open>temporal.py: the pattern-based fast path\<close>

text \<open>
  \<^verbatim>\<open>is_temporal_query\<close> compiles one regular expression (flags VERBOSE and
  IGNORECASE) and returns \<^verbatim>\<open>bool(pattern.search(query))\<close>. The expression uses
  only literals, the classes \<^verbatim>\<open>\d\<close> and \<^verbatim>\<open>\s\<close>, alternation, grouping,
  \<^verbatim>\<open>?\<close>, and \<^verbatim>\<open>*\<close>, \<^verbatim>\<open>+\<close>, \<^verbatim>\<open>{4}\<close>, \<^verbatim>\<open>{1,2}\<close> on a class,
  so the embedding is a datatype of exactly these forms and a matcher that returns,
  for a text, every rest a match of the expression can leave (the result of
  \<^verbatim>\<open>search\<close> is a truth value, so which match the backtracking engine finds first does
  not matter).

  Queries are modelled as ASCII text. \<^verbatim>\<open>\s\<close> on a \<^verbatim>\<open>str\<close> pattern matches
  the characters 9 to 13, 28 to 31 and 32 of that range, \<^verbatim>\<open>\d\<close> the digits, and a
  literal matches its own letter in either case. Characters beyond ASCII (where Python
  knows further digits, spaces and case pairs) are outside the model.
\<close>

datatype char_class = Digit | Space | Ch char

definition lower_code :: "nat \<Rightarrow> nat" where
  "lower_code k = (if 65 \<le> k \<and> k \<le> 90 then k + 32 else k)"

fun class_matches :: "char_class \<Rightarrow> char \<Rightarrow> bool" where
  "class_matches Digit c = (48 \<le> (of_char c :: nat) \<and> (of_char c :: nat) \<le> 57)"
| "class_matches Space c = ((of_char c :: nat) \<in> set [9, 10, 11, 12, 13, 28, 29, 30, 31, 32])"
| "class_matches (Ch p) c = (lower_code (of_char c) = lower_code (of_char p))"

datatype regex = Eps | Atom char_class | Star char_class | Seq regex regex | Alt "regex list"

primrec star_rests :: "char_class \<Rightarrow> string \<Rightarrow> string list" where
  "star_rests k [] = [[]]"
| "star_rests k (c # cs) = (c # cs) # (if class_matches k c then star_rests k cs else [])"

fun rests :: "regex \<Rightarrow> string \<Rightarrow> string list" where
  "rests Eps s = [s]"
| "rests (Atom k) s = (case s of [] \<Rightarrow> [] | c # cs \<Rightarrow> if class_matches k c then [cs] else [])"
| "rests (Star k) s = star_rests k s"
| "rests (Seq r1 r2) s = concat (map (rests r2) (rests r1 s))"
| "rests (Alt rs) s = concat (map (\<lambda>r. rests r s) rs)"

fun re_search :: "regex \<Rightarrow> string \<Rightarrow> bool" where
  "re_search r [] = (rests r [] \<noteq> [])"
| "re_search r (c # cs) = (rests r (c # cs) \<noteq> [] \<or> re_search r cs)"

text \<open>
  The pattern of \<^verbatim>\<open>is_temporal_query\<close>, alternative by alternative in the order of
  the source:
  \<^verbatim>\<open>
        \d{4}(?:\s*-\s*\d{4})?|
        \d{1,2}(?:st|nd|rd|th)\s+century|
        (?:last|past|next|coming|future)\s+\d+\s+(?:year|decade|century)|
        (?:recent|latest|current|ongoing|future|past|historical|ancient)|
        (?:evolution|changes?|advancements?|developments?|progress)|
        (?:solar\s+eclipse|equinox|solstice)|
        (?:mission|probe|telescope|spacecraft)|
        (?:nobel\s+prize|discovery|detection)|
        (?:before\s+and\s+after|compared\s+with|vs\.?)|
        (?:since|until|prior\s+to|post-|pre-)|
        (?:AD|BC)|
        (?:release|launch)
  \<close>
\<close>

definition lit :: "string \<Rightarrow> regex" where
  "lit s = foldr (\<lambda>c r. Seq (Atom (Ch c)) r) s Eps"

definition opt :: "regex \<Rightarrow> regex" where
  "opt r = Alt [r, Eps]"

definition plus :: "char_class \<Rightarrow> regex" where
  "plus k = Seq (Atom k) (Star k)"

definition seqs :: "regex list \<Rightarrow> regex" where
  "seqs rs = foldr Seq rs Eps"

definition words :: "string list \<Rightarrow> regex" where
  "words ws = Alt (map lit ws)"

definition digits4 :: regex where
  "digits4 = seqs [Atom Digit, Atom Digit, Atom Digit, Atom Digit]"

definition temporal_pattern :: regex where
  "temporal_pattern = Alt [
     seqs [digits4, opt (seqs [Star Space, lit ''-'', Star Space, digits4])],
     seqs [Atom Digit, opt (Atom Digit), words [''st'', ''nd'', ''rd'', ''th''], plus Space,
           lit ''century''],
     seqs [words [''last'', ''past'', ''next'', ''coming'', ''future''], plus Space, plus Digit,
           plus Space, words [''year'', ''decade'', ''century'']],
     words [''recent'', ''latest'', ''current'', ''ongoing'', ''future'', ''past'', ''historical'',
            ''ancient''],
     Alt [lit ''evolution'', seqs [lit ''change'', opt (lit ''s'')],
          seqs [lit ''advancement'', opt (lit ''s'')],
          seqs [lit ''development'', opt (lit ''s'')], lit ''progress''],
     Alt [seqs [lit ''solar'', plus Space, lit ''eclipse''], lit ''equinox'', lit ''solstice''],
     words [''mission'', ''probe'', ''telescope'', ''spacecraft''],
     Alt [seqs [lit ''nobel'', plus Space, lit ''prize''], lit ''discovery'', lit ''detection''],
     Alt [seqs [lit ''before'', plus Space, lit ''and'', plus Space, lit ''after''],
          seqs [lit ''compared'', plus Space, lit ''with''],
          seqs [lit ''vs'', opt (lit ''.'')]],
     Alt [lit ''since'', lit ''until'', seqs [lit ''prior'', plus Space, lit ''to''],
          lit ''post-'', lit ''pre-''],
     words [''AD'', ''BC''],
     words [''release'', ''launch'']]"

definition is_temporal_query :: "string \<Rightarrow> bool" where
  "is_temporal_query query = re_search temporal_pattern query"



section \<open>temporal.py: analyze\_temporal\_query\<close>

text \<open>
  Python values as far as the analyzer handles them: what the evaluation of the
  response text returns, and what is stored under the two keys of the result.
  \<open>py_getitem v k\<close> is \<^verbatim>\<open>v[k]\<close> for a string key: KeyError on a dict without the
  key, TypeError on a value that is no dict.
\<close>

datatype pyval = PyNone | PyInt int | PyStr string | PyDict "(string \<times> pyval) list"

fun py_getitem :: "pyval \<Rightarrow> string \<Rightarrow> py_error + pyval" where
  "py_getitem (PyDict d) k = (case map_of d k of None \<Rightarrow> Inl KeyError | Some v \<Rightarrow> Inr v)"
| "py_getitem _ k = Inl TypeError"

text \<open>
  A request to \<^verbatim>\<open>client.messages.create\<close>; the client is modelled by what it
  returns for a request: an exception, or the texts of the content blocks of the
  response (\<^verbatim>\<open>response.content[i].text\<close>).
\<close>

record create_request =
  req_model :: string
  req_max_tokens :: int
  req_temperature :: "real option"
  req_system :: "string option"
  req_content :: string

record temporal_result =
  has_temporal_aspect :: bool
  expected_year_filter :: pyval
  expected_recency_weight :: pyval

type_synonym messages_create = "create_request \<Rightarrow> py_error + string list"

text \<open>The prompt: an f-string with the query in its one hole.\<close>

definition prompt_before_query :: string where
  \<open>prompt_before_query =
     ''Analyze the following query for its temporal aspects. Provide your ana'' @
     ''lysis in a Python dictionary format with the following keys:\<newline>'' @
     ''    - 'expected_year_filter': A string representing a Boolean expressi'' @
     ''on for filtering years, or None if not applicable. Use 'year' as the v'' @
     ''ariable name. Use lowercase 'and', 'or', 'not' for logical operators. '' @
     ''Only use simple comparisons with years (e.g., 'year >= 2000', 'year < '' @
     ''1990', 'year == 2019', 'year != 2020'). Do not include any string comp'' @
     ''arisons or references to the query itself.\<newline>'' @
     ''    - 'expected_recency_weight': An integer from 0 to 10 representing '' @
     ''the importance of recency (0 for no recency bias, 10 for extreme recen'' @
     ''cy bias), or None if not applicable.\<newline>'' @
     ''\<newline>'' @
     ''    Here are two examples of correct output:\<newline>'' @
     ''\<newline>'' @
     ''    1. Query: "What are the latest developments in exoplanet detection'' @
     '' since 2015?"\<newline>'' @
     ''    {\<newline>'' @
     ''        'expected_year_filter': 'year >= 2015',\<newline>'' @
     ''        'expected_recency_weight': 8\<newline>'' @
     ''    }\<newline>'' @
     ''\<newline>'' @
     ''    2. Query: "Compare galaxy formation theories from the 1990s and 20'' @
     ''20s."\<newline>'' @
     ''    {\<newline>'' @
     ''        'expected_year_filter': '(year >= 1990 and year < 2000) or (ye'' @
     ''ar >= 2020 and year < 2030)',\<newline>'' @
     ''        'expected_recency_weight': 5\<newline>'' @
     ''    }\<newline>'' @
     ''\<newline>'' @
     ''    Now, analyze the following query:\<newline>'' @
     ''    Query: "''\<close>

definition prompt_after_query :: string where
  \<open>prompt_after_query =
     ''"\<newline>'' @
     ''\<newline>'' @
     ''    Respond only with the Python dictionary, no other text.\<newline>'' @
     ''    ''\<close>

definition temporal_prompt :: "string \<Rightarrow> string" where
  "temporal_prompt query = prompt_before_query @ query @ prompt_after_query"

definition temporal_request :: "string \<Rightarrow> create_request" where
  "temporal_request query =
     \<lparr>req_model = ''claude-3-haiku-20240307'', req_max_tokens = 300, req_temperature = None,
      req_system = None, req_content = temporal_prompt query\<rparr>"

text \<open>
  \<^verbatim>\<open>
  def analyze_temporal_query(query, client):
      start_time = time.time()
      has_temporal_aspect = is_temporal_query(query)
      if not has_temporal_aspect:
          end_time = time.time()
          return {'has_temporal_aspect': False, 'expected_year_filter': None,
                  'expected_recency_weight': None}, end_time - start_time
      prompt = f"""..."""
      response = client.messages.create(model="claude-3-haiku-20240307",
          messages=[{"role": "user", "content": prompt}], max_tokens=300)
      claude_result = eval(response.content[0].text)
      result = {'has_temporal_aspect': True,
                'expected_year_filter': claude_result['expected_year_filter'],
                'expected_recency_weight': claude_result['expected_recency_weight']}
      end_time = time.time()
      return result, end_time - start_time
  \<close>
  The model returns the outcome (the result dict or the exception that leaves the
  function) together with the list of requests sent to the client, in order. The
  elapsed wall-clock time, the second component of the Python result, is not
  modelled. The client may be \<open>None\<close> (the retrieval system passes its
  \<^verbatim>\<open>anthropic_client\<close> attribute, which is \<open>None\<close> until credentials are set);
  the attribute access on it then raises AttributeError.

  Python's \<^verbatim>\<open>eval\<close> is the parameter \<open>py_eval\<close>: the value or the exception
  that evaluating a text as an expression yields. The analyzer hands the response
  text to it as it is. (Side effects of the evaluated expression are beyond this
  model; they can only add to what the function does.)
\<close>

definition analyze_temporal_query ::
  "(string \<Rightarrow> py_error + pyval) \<Rightarrow> messages_create option \<Rightarrow> string
     \<Rightarrow> (py_error + temporal_result) \<times> create_request list" where
  "analyze_temporal_query py_eval client query =
     (if \<not> is_temporal_query query
      then (Inr \<lparr>has_temporal_aspect = False, expected_year_filter = PyNone,
                 expected_recency_weight = PyNone\<rparr>, [])
      else
        (case client of
           None \<Rightarrow> (Inl AttributeError, [])
         | Some create \<Rightarrow>
             (case create (temporal_request query) of
                Inl e \<Rightarrow> (Inl e, [temporal_request query])
              | Inr content \<Rightarrow>
                  (case content of
                     [] \<Rightarrow> (Inl IndexError, [temporal_request query])
                   | block # _ \<Rightarrow>
                       (case py_eval block of
                          Inl e \<Rightarrow> (Inl e, [temporal_request query])
                        | Inr claude_result \<Rightarrow>
                            (case py_getitem claude_result ''expected_year_filter'' of
                               Inl e \<Rightarrow> (Inl e, [temporal_request query])
                             | Inr year_filter \<Rightarrow>
                                 (case py_getitem claude_result ''expected_recency_weight'' of
                                    Inl e \<Rightarrow> (Inl e, [temporal_request query])
                                  | Inr recency_weight \<Rightarrow>
                                      (Inr \<lparr>has_temporal_aspect = True,
                                            expected_year_filter = year_filter,
                                            expected_recency_weight = recency_weight\<rparr>,
                                       [temporal_request query]))))))))"

section \<open>An evaluator for dict displays\<close>

text \<open>
  For concrete runs, \<open>py_eval\<close> is instantiated with an evaluator that knows one
  fragment of Python's expressions: a dict display whose keys are single-quoted
  string literals without escapes and whose values are such literals, decimal
  integer literals or \<^verbatim>\<open>None\<close>, with a trailing comma allowed and distinct keys.
  On this fragment \<open>py_eval_fragment\<close> returns what Python's \<^verbatim>\<open>eval\<close> returns;
  \<open>None\<close> says the text is outside the fragment. \<open>fragment_eval\<close> is the
  evaluator that rejects everything outside the fragment.
\<close>

datatype lit_token = LBrace | RBrace | Colon | Comma | StrTok string | IntTok nat | NoneTok

definition is_digit :: "char \<Rightarrow> bool" where
  "is_digit c = (48 \<le> (of_char c :: nat) \<and> (of_char c :: nat) \<le> 57)"

definition is_ident_char :: "char \<Rightarrow> bool" where
  "is_ident_char c =
     (let k = (of_char c :: nat)
      in (48 \<le> k \<and> k \<le> 57) \<or> (65 \<le> k \<and> k \<le> 90) \<or> (97 \<le> k \<and> k \<le> 122) \<or> k = 95 \<or> 128 \<le> k)"

definition digits_value :: "string \<Rightarrow> nat" where
  "digits_value ds = foldl (\<lambda>a d. 10 * a + (of_char d - 48)) 0 ds"

function lex_literal :: "string \<Rightarrow> lit_token list option" where
  "lex_literal [] = Some []"
| "lex_literal (c # cs) =
     (if c \<in> set [CHR '' '', CHR 0x09, CHR 0x0A, CHR 0x0D, CHR 0x0C] then lex_literal cs
      else if c = CHR ''{'' then map_option (Cons LBrace) (lex_literal cs)
      else if c = CHR ''}'' then map_option (Cons RBrace) (lex_literal cs)
      else if c = CHR '':'' then map_option (Cons Colon) (lex_literal cs)
      else if c = CHR '','' then map_option (Cons Comma) (lex_literal cs)
      else if c = CHR 0x27 then
        (let body = takeWhile (\<lambda>x. x \<noteq> CHR 0x27) cs; rest = dropWhile (\<lambda>x. x \<noteq> CHR 0x27) cs
         in if rest = [] \<or> CHR 0x5C \<in> set body \<or> CHR 0x0A \<in> set body \<or> CHR 0x0D \<in> set body
            then None
            else map_option (Cons (StrTok body)) (lex_literal (tl rest)))
      else if is_digit c then
        (let ds = c # takeWhile is_digit cs; rest = dropWhile is_digit cs
         in if (c = CHR ''0'' \<and> ds \<noteq> [c]) \<or> (rest \<noteq> [] \<and> (is_ident_char (hd rest) \<or> hd rest = CHR ''.''))
            then None
            else map_option (Cons (IntTok (digits_value ds))) (lex_literal rest))
      else if prefix ''None'' (c # cs) \<and> (drop 4 (c # cs) = [] \<or> \<not> is_ident_char (hd (drop 4 (c # cs))))
        then map_option (Cons NoneTok) (lex_literal (drop 4 (c # cs)))
      else None)"
  by pat_completeness auto
termination
proof (relation "measure length")
  show "wf (measure length)" by simp
next
  fix c :: char and cs body rest
  assume "rest = dropWhile (\<lambda>x. x \<noteq> CHR 0x27) cs"
  then show "(tl rest, c # cs) \<in> measure length"
    using length_dropWhile_le [of "\<lambda>x. x \<noteq> CHR 0x27" cs] by simp
next
  fix c :: char and cs ds rest
  assume "rest = dropWhile is_digit cs"
  then show "(rest, c # cs) \<in> measure length"
    using length_dropWhile_le [of is_digit cs] by simp
qed auto

fun literal_value :: "lit_token \<Rightarrow> pyval option" where
  "literal_value (StrTok s) = Some (PyStr s)"
| "literal_value (IntTok k) = Some (PyInt (int k))"
| "literal_value NoneTok = Some PyNone"
| "literal_value _ = None"

fun parse_items :: "lit_token list \<Rightarrow> (string \<times> pyval) list option" where
  "parse_items [RBrace] = Some []"
| "parse_items [StrTok k, Colon, v, RBrace] =
     (case literal_value v of None \<Rightarrow> None | Some x \<Rightarrow> Some [(k, x)])"
| "parse_items (StrTok k # Colon # v # Comma # ts) =
     (case literal_value v of
        None \<Rightarrow> None
      | Some x \<Rightarrow> (case parse_items ts of None \<Rightarrow> None | Some kvs \<Rightarrow> Some ((k, x) # kvs)))"
| "parse_items _ = None"

definition py_eval_fragment :: "string \<Rightarrow> pyval option" where
  "py_eval_fragment source =
     (case lex_literal source of
        Some (LBrace # ts) \<Rightarrow>
          (case parse_items ts of
             Some kvs \<Rightarrow> if distinct (map fst kvs) then Some (PyDict kvs) else None
           | None \<Rightarrow> None)
      | _ \<Rightarrow> None)"

definition fragment_eval :: "string \<Rightarrow> py_error + pyval" where
  "fragment_eval source = (case py_eval_fragment source of Some v \<Rightarrow> Inr v | None \<Rightarrow> Inl SyntaxError)"


section \<open>The year-filter grammar of the specification\<close>

text \<open>
  The specification asks for a parser limited to comparisons of the single variable
  \<^verbatim>\<open>year\<close> with a year, combined with \<^verbatim>\<open>and\<close>, \<^verbatim>\<open>or\<close>, \<^verbatim>\<open>not\<close> (and
  parentheses, as its own example uses them). This definition follows the
  specification's words, not the code, which has no such parser.
\<close>

definition comparison_ops :: "string list" where
  "comparison_ops = [''>='', ''<='', ''=='', ''!='', ''<'', ''>'']"

inductive spec_year_filter :: "string \<Rightarrow> bool" where
  comparison:
    "op \<in> set comparison_ops \<Longrightarrow> ds \<noteq> [] \<Longrightarrow> set ds \<subseteq> set ''0123456789'' \<Longrightarrow>
     set w1 \<subseteq> {CHR '' ''} \<Longrightarrow> set w2 \<subseteq> {CHR '' ''} \<Longrightarrow>
     spec_year_filter (''year'' @ w1 @ op @ w2 @ ds)"
| conj: "spec_year_filter a \<Longrightarrow> spec_year_filter b \<Longrightarrow> spec_year_filter (a @ '' and '' @ b)"
| disj: "spec_year_filter a \<Longrightarrow> spec_year_filter b \<Longrightarrow> spec_year_filter (a @ '' or '' @ b)"
| neg: "spec_year_filter a \<Longrightarrow> spec_year_filter (''not '' @ a)"
| paren: "spec_year_filter a \<Longrightarrow> spec_year_filter (''('' @ a @ '')'')"
| pad_left: "spec_year_filter a \<Longrightarrow> spec_year_filter ('' '' @ a)"
| pad_right: "spec_year_filter a \<Longrightarrow> spec_year_filter (a @ '' '')"

section \<open>semantic\_search.py: scoring and ranking\<close>

text \<open>
  The similarities are the float32 numbers numpy computes. Their arithmetic is not
  modelled: \<^verbatim>\<open>np.dot\<close> is a parameter \<open>np_dot\<close> of \<^verbatim>\<open>rank_and_filter\<close> and
  \<^verbatim>\<open>retrieve\<close>, a function from the embedding matrix (of a type \<open>'m\<close>) and the
  query vector (of a type \<open>'v\<close>) to the vector of similarities it returns, or to
  the exception it raises. A similarity is a value of a linearly ordered type
  \<open>'s\<close>, which is all the code uses of it: the comparison \<^verbatim>\<open>>\<close> and the sort.
  (NaN, which no order places, is outside the model.) The missing-section score
  \<^verbatim>\<open>-np.inf\<close> is \<open>None\<close>, which the order on \<open>option\<close> puts below every
  \<open>Some x\<close>.

  \<^verbatim>\<open>similarities[mappings[s]] if s in mappings else -np.inf\<close>, where
  \<^verbatim>\<open>mappings\<close> is the dict from section name to row index of one document:
\<close>

type_synonym 's score = "'s option"

definition section_similarity ::
  "'s list \<Rightarrow> (string \<rightharpoonup> int) \<Rightarrow> string \<Rightarrow> py_error + 's score" where
  "section_similarity similarities mappings section =
     (case mappings section of
        None \<Rightarrow> Inr None
      | Some row \<Rightarrow>
          (case py_index similarities row of Inl e \<Rightarrow> Inl e | Inr v \<Rightarrow> Inr (Some v)))"

text \<open>
  The scoring loop of \<^verbatim>\<open>rank_and_filter\<close>:
  \<^verbatim>\<open>
        results = []
        for doc_id, mappings in self.index_mapping.items():
            abstract_sim = similarities[mappings['abstract']] if 'abstract' in mappings else -np.inf
            conclusions_sim = similarities[mappings['conclusions']] if 'conclusions' in mappings else -np.inf
            if abstract_sim > conclusions_sim:
                results.append([doc_id, "abstract", abstract_sim])
            else:
                results.append([doc_id, "conclusions", conclusions_sim])
  \<close>
  \<open>score_document\<close> is one pass of the body, \<open>score_documents\<close> the loop with
  \<open>results\<close> as its accumulator. The index mapping is a dict: it is modelled as the
  list of its items in iteration (insertion) order.
\<close>

type_synonym 's candidate = "string \<times> string \<times> 's score"

definition score_document ::
  "('s::linorder) list \<Rightarrow> string \<times> (string \<rightharpoonup> int) \<Rightarrow> py_error + 's candidate" where
  "score_document similarities item =
     (case item of (doc_id, mappings) \<Rightarrow>
        (case section_similarity similarities mappings ''abstract'' of
           Inl e \<Rightarrow> Inl e
         | Inr abstract_sim \<Rightarrow>
             (case section_similarity similarities mappings ''conclusions'' of
                Inl e \<Rightarrow> Inl e
              | Inr conclusions_sim \<Rightarrow>
                  (if abstract_sim > conclusions_sim
                   then Inr (doc_id, ''abstract'', abstract_sim)
                   else Inr (doc_id, ''conclusions'', conclusions_sim)))))"

fun score_documents ::
  "('s::linorder) list \<Rightarrow> (string \<times> (string \<rightharpoonup> int)) list \<Rightarrow> 's candidate list
     \<Rightarrow> py_error + 's candidate list" where
  "score_documents similarities [] results = Inr results"
| "score_documents similarities (item # items) results =
     (case score_document similarities item of
        Inl e \<Rightarrow> Inl e
      | Inr entry \<Rightarrow> score_documents similarities items (results @ [entry]))"

text \<open>
  \<^verbatim>\<open>sorted(xs, key=f, reverse=True)\<close>: Python's sort is stable, and with
  \<^verbatim>\<open>reverse=True\<close> elements with equal keys still keep their original order. That
  is the stable ascending sort of the reversed list, reversed. \<^verbatim>\<open>xs[:k]\<close> takes
  the first \<open>k\<close> elements, and all but the last \<open>-k\<close> for a negative \<open>k\<close>.
  \<open>py_dict_of\<close> is the dict a comprehension builds from key-value pairs, as its
  list of items: a repeated key keeps its first position and takes the last value.
\<close>

definition py_sorted_reverse :: "('a \<Rightarrow> 'k::linorder) \<Rightarrow> 'a list \<Rightarrow> 'a list" where
  "py_sorted_reverse key xs = rev (sort_key key (rev xs))"

definition py_slice_to :: "'a list \<Rightarrow> int \<Rightarrow> 'a list" where
  "py_slice_to xs k = (if 0 \<le> k then take (nat k) xs else take (length xs - nat (- k)) xs)"

definition py_dict_of :: "('k \<times> 'v) list \<Rightarrow> ('k \<times> 'v) list" where
  "py_dict_of kvs = foldl (\<lambda>d (k, v). AList.update k v d) [] kvs"

text \<open>
  The retrieval system, as far as \<^verbatim>\<open>retrieve\<close> reads it. \<open>embeddings\<close> is the
  numpy matrix. \<open>client\<close> is the embedding client (\<open>None\<close> until credentials are
  set), given by what \<^verbatim>\<open>get_query_embedding\<close> makes of its answer: the float32
  query vector, or an exception. \<open>keyword_filter\<close> is set only by
  \<^verbatim>\<open>init_filters\<close>, which the constructor does not call. \<^verbatim>\<open>parse_date\<close> is
  inherited from the base class \<^verbatim>\<open>RetrievalSystem\<close> of the module
  \<^verbatim>\<open>evaluate\<close>, which is not among the sources: it is a parameter, a function
  that returns a date or raises.
\<close>

datatype 's retrieval = IdList "string list" | ScoreDict "(string \<times> 's score) list"

record ('d, 'm, 'v) retrieval_system =
  embeddings :: 'm
  index_mapping :: "(string \<times> (string \<rightharpoonup> int)) list"
  weight_date :: bool
  weight_keywords :: bool
  keyword_filter :: "(string \<Rightarrow> py_error + string list) option"
  client :: "(string \<Rightarrow> py_error + 'v) option"
  anthropic_client :: "messages_create option"
  python_eval :: "string \<Rightarrow> py_error + pyval"
  parse_date :: "string option \<Rightarrow> py_error + 'd"

text \<open>
  \<^verbatim>\<open>
    def rank_and_filter(self, query, query_embedding, query_date, top_k = 10,
                        return_scores = False, time_result = None):
        similarities = np.dot(self.embeddings, query_embedding)
        if self.weight_keywords:
            keyword_matches = self.keyword_filter.filter(query)
        results = []
        for doc_id, mappings in self.index_mapping.items(): ...
        filtered_results = results
        top_results = sorted(filtered_results, key=lambda x: x[2], reverse=True)[:top_k]
        if return_scores:
            return {doc[0]: doc[2] for doc in top_results}
        top_results = [doc[0] for doc in top_results]
        return top_results
  \<close>
  (The date and citation filters between the loop and the sort are commented out in
  the source.)
\<close>

definition rank_and_filter ::
  "('m \<Rightarrow> 'v \<Rightarrow> py_error + ('s::linorder) list) \<Rightarrow> ('d, 'm, 'v) retrieval_system \<Rightarrow> string
     \<Rightarrow> 'v \<Rightarrow> 'd \<Rightarrow> int \<Rightarrow> bool \<Rightarrow> temporal_result option \<Rightarrow> py_error + 's retrieval" where
  "rank_and_filter np_dot self query query_embedding query_date top_k return_scores time_result =
     (case np_dot (embeddings self) query_embedding of
        Inl e \<Rightarrow> Inl e
      | Inr similarities \<Rightarrow>
          (case (if weight_keywords self
                 then (case keyword_filter self of
                         None \<Rightarrow> Inl AttributeError
                       | Some filter_fn \<Rightarrow> filter_fn query)
                 else Inr []) of
             Inl e \<Rightarrow> Inl e
           | Inr keyword_matches \<Rightarrow>
               (case score_documents similarities (index_mapping self) [] of
                  Inl e \<Rightarrow> Inl e
                | Inr results \<Rightarrow>
                    (let filtered_results = results;
                         top_results =
                           py_slice_to
                             (py_sorted_reverse (\<lambda>x. snd (snd x)) filtered_results) top_k
                     in if return_scores
                        then Inr (ScoreDict
                               (py_dict_of (map (\<lambda>doc. (fst doc, snd (snd doc))) top_results)))
                        else Inr (IdList (map fst top_results))))))"

definition get_query_embedding :: "('d, 'm, 'v) retrieval_system \<Rightarrow> string \<Rightarrow> py_error + 'v" where
  "get_query_embedding self query =
     (case client self of None \<Rightarrow> Inl AttributeError | Some embed_fn \<Rightarrow> embed_fn query)"

text \<open>
  \<^verbatim>\<open>
    def retrieve(self, query, arxiv_id = None, top_k = 10, return_scores = False,
                 time_result = None):
        query_date = self.parse_date(arxiv_id)
        query_embedding = self.get_query_embedding(query)
        if time_result is None:
            if self.weight_date:
                time_result, time_taken = analyze_temporal_query(query, self.anthropic_client)
            else:
                time_result = {'has_temporal_aspect': False, 'expected_year_filter': None,
                               'expected_recency_weight': None}
        top_results = self.rank_and_filter(query, query_embedding, query_date, top_k,
                          return_scores = return_scores, time_result = time_result)
        return top_results
  \<close>
  There is no exception handler: what \<^verbatim>\<open>analyze_temporal_query\<close> raises leaves
  \<^verbatim>\<open>retrieve\<close>.
\<close>

definition retrieve ::
  "('m \<Rightarrow> 'v \<Rightarrow> py_error + ('s::linorder) list) \<Rightarrow> ('d, 'm, 'v) retrieval_system \<Rightarrow> string
     \<Rightarrow> string option \<Rightarrow> int \<Rightarrow> bool \<Rightarrow> temporal_result option \<Rightarrow> py_error + 's retrieval" where
  "retrieve np_dot self query arxiv_id top_k return_scores time_result =
     (case parse_date self arxiv_id of
        Inl e \<Rightarrow> Inl e
      | Inr query_date \<Rightarrow>
          (case get_query_embedding self query of
             Inl e \<Rightarrow> Inl e
           | Inr query_embedding \<Rightarrow>
               (case (case time_result of
                        Some t \<Rightarrow> Inr t
                      | None \<Rightarrow>
                          if weight_date self
                          then fst (analyze_temporal_query (python_eval self)
                                      (anthropic_client self) query)
                          else Inr \<lparr>has_temporal_aspect = False, expected_year_filter = PyNone,
                                     expected_recency_weight = PyNone\<rparr>) of
                  Inl e \<Rightarrow> Inl e
                | Inr t \<Rightarrow>
                    rank_and_filter np_dot self query query_embedding query_date top_k
                      return_scores (Some t))))"

text \<open>
  Three notions in the words of the specification. The similarity of a document's
  section is the entry of the similarity vector at the section's row, and negative
  infinity (\<open>None\<close>) when the section is missing. The index mapping's invariant:
  every row index it holds for the two sections exists, here as a position of the
  similarity vector, which has one entry per row of the matrix. The entry asked
  for: the better of the two sections of a document, with its similarity.
\<close>

definition row_similarity :: "'s list \<Rightarrow> (string \<rightharpoonup> int) \<Rightarrow> string \<Rightarrow> 's score" where
  "row_similarity similarities mappings section =
     (case mappings section of
        None \<Rightarrow> None
      | Some row \<Rightarrow> Some (similarities ! nat row))"

definition rows_exist :: "(string \<times> (string \<rightharpoonup> int)) list \<Rightarrow> nat \<Rightarrow> bool" where
  "rows_exist items rows =
     list_all (\<lambda>item. list_all (\<lambda>section.
         case snd item section of None \<Rightarrow> True | Some row \<Rightarrow> 0 \<le> row \<and> row < int rows)
       [''abstract'', ''conclusions'']) items"

definition best_section ::
  "('s::linorder) list \<Rightarrow> string \<times> (string \<rightharpoonup> int) \<Rightarrow> 's candidate" where
  "best_section similarities item =
     (if row_similarity similarities (snd item) ''abstract''
           > row_similarity similarities (snd item) ''conclusions''
      then (fst item, ''abstract'', row_similarity similarities (snd item) ''abstract'')
      else (fst item, ''conclusions'', row_similarity similarities (snd item) ''conclusions''))"


section \<open>sciencetree.py: the tree of science questions\<close>

text \<open>
  The four mode labels and the three instruction templates of \<^verbatim>\<open>generate\<close>, each
  with the branching factor formatted into its one hole.
\<close>

definition modes :: "string list" where
  "modes = [''Science Goal'', ''Science Objective'', ''Physical Parameter'', ''Astronomical Observable'']"

definition default_background :: string where
  "default_background =
     ''You are an expert astronomer trying to understand the science case for a future observatory.''"

definition default_generation_model :: string where
  "default_generation_model = ''claude-3-5-sonnet-20240620''"

definition default_config_path :: string where
  "default_config_path = ''../config.yaml''"

definition system_0_before :: string where
  \<open>system_0_before =
     ''Given the following over-arching science goal and related astrophysics'' @
     '' papers, brainstorm exactly ''\<close>

definition system_0_after :: string where
  \<open>system_0_after =
     '' focused science objectives that contribute towards the science goal.\<newline>'' @
     ''                        Be concise. Return each science objective on a'' @
     '' separate line, enclosed in curly braces.\<newline>'' @
     ''                        ''\<close>

definition system_1_before :: string where
  \<open>system_1_before =
     ''Given the following science objective and related astrophysics researc'' @
     ''h papers, identify exactly ''\<close>

definition system_1_after :: string where
  \<open>system_1_after =
     '' astrophysical parameters that would help answer the science objective'' @
     ''.\<newline>'' @
     ''                        Be detailed and specific (ex. type of astrophy'' @
     ''sical systems). Return each astrophysical parameter on a separate line'' @
     '', enclosed in curly braces.\<newline>'' @
     ''                        ''\<close>

definition system_2_before :: string where
  \<open>system_2_before =
     ''Given the following astrophysical parameter and related research paper'' @
     ''s, identify exactly ''\<close>

definition system_2_after :: string where
  \<open>system_2_after =
     '' concrete observables that would help measure the physical parameter.\<newline>'' @
     ''                        Ensure the observables are directly related to'' @
     '' potential telescope observations.\<newline>'' @
     ''                        Be concise and specific (ex. wavelength band, '' @
     ''resolution, precision, types of observation targets, etc.). Be as quan'' @
     ''titative as possible, but make sure numbers are derived from the resea'' @
     ''rch papers. Return each observable on a separate line, enclosed in cur'' @
     ''ly braces.\<newline>'' @
     ''                        ''\<close>

definition systems :: "int \<Rightarrow> string list" where
  "systems k = [system_0_before @ str_int k @ system_0_after,
                system_1_before @ str_int k @ system_1_after,
                system_2_before @ str_int k @ system_2_after]"

text \<open>
  The external collaborators of a node. The retriever is any object with
  \<^verbatim>\<open>retrieve\<close> and \<^verbatim>\<open>get_document_texts\<close>; the generation client is an
  Anthropic client. Their answers may depend on everything that went before and are
  not repeatable, so each is a function of the history of calls made so far and of
  its arguments, returning a value or an exception. A client's answer is the list of
  texts of the content blocks of the response. \<open>load_config p\<close> is the mapping read
  from the YAML file at \<open>p\<close>, \<open>None\<close> when no file exists there; \<open>connect k\<close> is
  the client \<^verbatim>\<open>anthropic.Anthropic(api_key = k)\<close>.
\<close>

datatype tree_call =
    RetrieveCall string string int
  | GetDocumentTextsCall "string list"
  | CreateCall create_request

record doc_text =
  doc_id :: string
  doc_abstract :: string
  doc_conclusions :: string

type_synonym generation_client = "tree_call list \<Rightarrow> create_request \<Rightarrow> py_error + string list"

record tree_env =
  retriever_retrieve :: "tree_call list \<Rightarrow> string \<Rightarrow> string \<Rightarrow> int \<Rightarrow> py_error + string list"
  retriever_get_document_texts :: "tree_call list \<Rightarrow> string list \<Rightarrow> py_error + doc_text list"
  load_config :: "string \<Rightarrow> (string \<rightharpoonup> string) option"
  connect :: "string \<Rightarrow> generation_client"

datatype scienceTreeNode =
  TreeNode (node_text: string) (node_docs: "string list") (node_year: int) (node_mode: int)
    (node_n: int) (node_temperature: real) (node_background: string)
    (node_generation_model: string) (node_children: "scienceTreeNode list")

record init_args =
  arg_text :: string
  arg_year :: int
  arg_n :: int
  arg_temperature :: real
  arg_background :: "string option"
  arg_experiment :: "string option"
  arg_mode :: int
  arg_generation_model :: string
  arg_api_key :: "string option"
  arg_generation_client :: "generation_client option"
  arg_config_path :: string

record self_attrs =
  self_text :: string
  self_year :: int
  self_mode :: int
  self_n :: int
  self_temperature :: real
  self_background :: string
  self_generation_model :: string
  self_generation_client :: "generation_client option"

text \<open>
  The choice of the client in the constructor:
  \<^verbatim>\<open>
        if generation_client is not None:
            self.generation_client = generation_client
        elif os.path.exists(config_path):
            config = yaml.safe_load(open(config_path, 'r'))
            anthropic_key = config['anthropic_api_key']
            self.generation_client = anthropic.Anthropic(api_key = anthropic_key)
        elif api_key is not None:
            self.generation_client = anthropic.Anthropic(api_key = api_key)
        else:
            print("No API key or config file provided")
  \<close>
  In the last branch the attribute stays unset (\<open>None\<close> in the model) and a later
  read of it raises AttributeError. \<open>initial_background\<close> is the value of
  \<^verbatim>\<open>self.background\<close>; \<open>child_args\<close> are the arguments of the constructor call for
  a child (temperature, model, config path and API key take their defaults).
\<close>

definition resolve_client :: "tree_env \<Rightarrow> init_args \<Rightarrow> py_error + generation_client option" where
  "resolve_client env args =
     (case arg_generation_client args of
        Some c \<Rightarrow> Inr (Some c)
      | None \<Rightarrow>
          (case load_config env (arg_config_path args) of
             Some config \<Rightarrow>
               (case config ''anthropic_api_key'' of
                  None \<Rightarrow> Inl KeyError
                | Some anthropic_key \<Rightarrow> Inr (Some (connect env anthropic_key)))
           | None \<Rightarrow>
               (case arg_api_key args of
                  Some api_key \<Rightarrow> Inr (Some (connect env api_key))
                | None \<Rightarrow> Inr None)))"

definition initial_background :: "init_args \<Rightarrow> string" where
  "initial_background args =
     (case arg_background args of
        Some b \<Rightarrow> b
      | None \<Rightarrow> default_background @ (case arg_experiment args of Some x \<Rightarrow> x | None \<Rightarrow> []))"

definition child_args :: "self_attrs \<Rightarrow> string \<Rightarrow> init_args" where
  "child_args self child =
     \<lparr>arg_text = child, arg_year = self_year self, arg_n = self_n self, arg_temperature = 1 / 2,
      arg_background = Some (self_background self), arg_experiment = None,
      arg_mode = self_mode self + 1, arg_generation_model = default_generation_model,
      arg_api_key = None, arg_generation_client = self_generation_client self,
      arg_config_path = default_config_path\<rparr>"

definition input_text_of :: "string \<Rightarrow> string \<Rightarrow> doc_text list \<Rightarrow> string" where
  "input_text_of label text_of_node doc_texts =
     foldl (\<lambda>input_text doc. input_text @ doc_id doc @ '': '' @ doc_abstract doc @ ''\<newline>'')
       (label @ '': '' @ text_of_node @ ''\<newline>'') doc_texts"

text \<open>
  The first half of \<^verbatim>\<open>generate\<close>, up to \<^verbatim>\<open>message = message.content[0].text\<close>:
  \<^verbatim>\<open>
        yearstr = str(self.year // 100) + "01.0001"
        docs = self.retriever.retrieve(self.text, yearstr, top_k = 10)
        doc_texts = self.retriever.get_document_texts(docs)
        self.docs = [doc['id'] for doc in doc_texts]
        input_text = modes[self.mode] + ": " + self.text + "\n"
        for doc in doc_texts:
            input_text += doc['id'] + ": " + doc['abstract'] + "\n"
        systems = [...]
        if temperature is None:
            temperature = self.temperature
        message = self.generation_client.messages.create(model = self.generation_model,
                max_tokens = 1000, temperature = temperature,
                system = self.background + "\n" + systems[self.mode],
                messages=[{"role": "user", "content": [{"type": "text", "text": input_text}]}])
        message = message.content[0].text
  \<close>
  It returns the document ids stored in \<^verbatim>\<open>self.docs\<close> and the message text, or
  the exception, and the history extended by the calls made.
\<close>

definition generate_message ::
  "tree_env \<Rightarrow> tree_call list \<Rightarrow> self_attrs \<Rightarrow> real option \<Rightarrow> int
     \<Rightarrow> (py_error + string list \<times> string) \<times> tree_call list" where
  "generate_message env h self temperature k =
     (let yearstr = str_int (self_year self div 100) @ ''01.0001'';
          h1 = h @ [RetrieveCall (self_text self) yearstr 10]
      in case retriever_retrieve env h (self_text self) yearstr 10 of
           Inl e \<Rightarrow> (Inl e, h1)
         | Inr docs \<Rightarrow>
             (let h2 = h1 @ [GetDocumentTextsCall docs]
              in case retriever_get_document_texts env h1 docs of
                   Inl e \<Rightarrow> (Inl e, h2)
                 | Inr doc_texts \<Rightarrow>
                     (case py_index modes (self_mode self) of
                        Inl e \<Rightarrow> (Inl e, h2)
                      | Inr label \<Rightarrow>
                          (case self_generation_client self of
                             None \<Rightarrow> (Inl AttributeError, h2)
                           | Some create \<Rightarrow>
                               (case py_index (systems k) (self_mode self) of
                                  Inl e \<Rightarrow> (Inl e, h2)
                                | Inr system \<Rightarrow>
                                    (let request =
                                           \<lparr>req_model = self_generation_model self,
                                            req_max_tokens = 1000,
                                            req_temperature =
                                              Some (case temperature of
                                                      None \<Rightarrow> self_temperature self
                                                    | Some t \<Rightarrow> t),
                                            req_system =
                                              Some (self_background self @ ''\<newline>'' @ system),
                                            req_content =
                                              input_text_of label (self_text self) doc_texts\<rparr>;
                                         h3 = h2 @ [CreateCall request]
                                     in case create h2 request of
                                          Inl e \<Rightarrow> (Inl e, h3)
                                        | Inr content \<Rightarrow>
                                            (case content of
                                               [] \<Rightarrow> (Inl IndexError, h3)
                                             | message # _ \<Rightarrow>
                                                 (Inr (map doc_id doc_texts, message), h3))))))))"

text \<open>
  The constructor, \<^verbatim>\<open>generate\<close> and its loop over the lines of the message:
  \<^verbatim>\<open>
        self.children = []
        if mode < 3:
            self.children = self.generate(temperature, self.n)
  \<close>
  \<^verbatim>\<open>
        children = []
        for pair in message.split('\n'):
            if '{' and '}' in pair:
                child = pair.split('{')[1].replace('}', '')
                children.append(scienceTreeNode(text = child, year = self.year,
                    background = self.background, n = self.n, retriever = self.retriever,
                    generation_client = self.generation_client, mode = self.mode + 1))
        return children
  \<close>
  The condition \<^verbatim>\<open>'{' and '}' in pair\<close> is Python's \<^verbatim>\<open>'{' and ('}' in pair)\<close>:
  the value of \<^verbatim>\<open>'}' in pair\<close> when the string \<^verbatim>\<open>'{'\<close> is non-empty. An
  exception raised while a child is built leaves the loop, \<^verbatim>\<open>generate\<close> and the
  constructor of the parent.
\<close>

function (sequential)
  scienceTreeNode_init ::
    "tree_env \<Rightarrow> tree_call list \<Rightarrow> init_args \<Rightarrow> (py_error + scienceTreeNode) \<times> tree_call list"
  and generate ::
    "tree_env \<Rightarrow> tree_call list \<Rightarrow> self_attrs \<Rightarrow> real option \<Rightarrow> int
       \<Rightarrow> (py_error + string list \<times> scienceTreeNode list) \<times> tree_call list"
  and generate_children ::
    "tree_env \<Rightarrow> tree_call list \<Rightarrow> self_attrs \<Rightarrow> string list \<Rightarrow> scienceTreeNode list
       \<Rightarrow> (py_error + scienceTreeNode list) \<times> tree_call list"
where
  "scienceTreeNode_init env h args =
     (case resolve_client env args of
        Inl e \<Rightarrow> (Inl e, h)
      | Inr generation_client \<Rightarrow>
          (if arg_mode args < 3
           then
             (case generate env h
                     \<lparr>self_text = arg_text args, self_year = arg_year args,
                      self_mode = arg_mode args, self_n = arg_n args,
                      self_temperature = arg_temperature args,
                      self_background = initial_background args,
                      self_generation_model = arg_generation_model args,
                      self_generation_client = generation_client\<rparr>
                     (Some (arg_temperature args)) (arg_n args) of
                (Inl e, h') \<Rightarrow> (Inl e, h')
              | (Inr (docs, children), h') \<Rightarrow>
                  (Inr (TreeNode (arg_text args) docs (arg_year args) (arg_mode args) (arg_n args)
                          (arg_temperature args) (initial_background args)
                          (arg_generation_model args) children), h'))
           else
             (Inr (TreeNode (arg_text args) [] (arg_year args) (arg_mode args) (arg_n args)
                     (arg_temperature args) (initial_background args)
                     (arg_generation_model args) []), h)))"
| "generate env h self temperature k =
     (case generate_message env h self temperature k of
        (Inl e, h3) \<Rightarrow> (Inl e, h3)
      | (Inr (docs, message), h3) \<Rightarrow>
          (case generate_children env h3 self (py_split message ''\<newline>'') [] of
             (Inl e, h') \<Rightarrow> (Inl e, h')
           | (Inr children, h') \<Rightarrow> (Inr (docs, children), h')))"
| "generate_children env h self [] children = (Inr children, h)"
| "generate_children env h self (pair # pairs) children =
     (if (if ''{'' \<noteq> [] then py_in ''}'' pair else False)
      then
        (case py_index (py_split pair ''{'') 1 of
           Inl e \<Rightarrow> (Inl e, h)
         | Inr piece \<Rightarrow>
             (case scienceTreeNode_init env h (child_args self (py_remove_char CHR ''}'' piece)) of
                (Inl e, h') \<Rightarrow> (Inl e, h')
              | (Inr child, h') \<Rightarrow> generate_children env h' self pairs (children @ [child])))
      else generate_children env h self pairs children)"
  by pat_completeness auto
termination
  by (relation "measures [
      (\<lambda>x. case x of
         Inl (env, h, args) \<Rightarrow> 3 * nat (3 - arg_mode args)
       | Inr (Inl (env, h, self, t, k)) \<Rightarrow> 3 * nat (3 - (self_mode self + 1)) + 2
       | Inr (Inr (env, h, self, pairs, children)) \<Rightarrow> 3 * nat (3 - (self_mode self + 1)) + 1),
      (\<lambda>x. case x of
         Inr (Inr (env, h, self, pairs, children)) \<Rightarrow> length pairs
       | _ \<Rightarrow> 0)]")
    (auto simp: child_args_def)

declare scienceTreeNode_init.simps [simp del] generate.simps [simp del]

text \<open>
  A well-formed entry in the words of the specification: a line that contains a
  complete delimited segment, an opening brace with a closing brace behind it.
\<close>

definition well_formed_entry :: "string \<Rightarrow> bool" where
  "well_formed_entry line = (CHR ''}'' \<in> set (dropWhile (\<lambda>c. c \<noteq> CHR ''{'') line))"

text \<open>
  The text the loop cuts from an accepted line:
  \<^verbatim>\<open>pair.split('{')[1].replace('}', '')\<close>.
\<close>

definition entry_text :: "string \<Rightarrow> string" where
  "entry_text line = py_remove_char CHR ''}'' (py_split line ''{'' ! 1)"

text \<open>
  Collaborators that answer: the retriever returns for every call, and the client
  returns at least one content block for every request, every line of whose first
  block either has no closing brace or is a well-formed entry.
\<close>

definition well_behaved :: "tree_env \<Rightarrow> generation_client \<Rightarrow> bool" where
  "well_behaved env c =
     ((\<forall>h query yearstr top_k. \<exists>docs. retriever_retrieve env h query yearstr top_k = Inr docs)
      \<and> (\<forall>h docs. \<exists>doc_texts. retriever_get_document_texts env h docs = Inr doc_texts)
      \<and> (\<forall>h request. \<exists>message blocks. c h request = Inr (message # blocks)
            \<and> (\<forall>line \<in> set (py_split message ''\<newline>'').
                  py_in ''}'' line \<longrightarrow> well_formed_entry line)))"

section \<open>Concrete inputs\<close>

text \<open>
  Inputs for the concrete runs below: a language-model client that answers every
  request with one fixed text, a response whose filter is no year filter, a response
  that is no Python expression, and a retrieval system with temporal weighting on.
\<close>

definition constant_client :: "string \<Rightarrow> messages_create" where
  "constant_client reply request = Inr [reply]"

definition reply_outside_grammar :: string where
  \<open>reply_outside_grammar =
     ''{'expected_year_filter': 'len(query) > 3', 'expected_recency_weight': 8}''\<close>

definition reply_no_expression :: string where
  "reply_no_expression = ''I cannot answer that.''"

definition weighting_system :: "(unit, real list list, real list) retrieval_system" where
  "weighting_system =
     \<lparr>embeddings = [[1, 0]], index_mapping = [(''a'', [''abstract'' \<mapsto> 0])],
      weight_date = True, weight_keywords = False, keyword_filter = None,
      client = Some (\<lambda>query. Inr [1, 0]),
      anthropic_client = Some (constant_client reply_no_expression),
      python_eval = fragment_eval, parse_date = (\<lambda>arxiv_id. Inr ())\<rparr>"

text \<open>
  For the concrete runs \<open>np_dot\<close> is instantiated with the dot products of the rows
  of a matrix, given as the non-empty list of its rows, with a vector, computed
  exactly. This is what numpy returns when the rows are as long as the vector and
  every product and partial sum is a float32 number, as it is for the matrix and the
  query vector of the sample system below, whose entries are 0, 1/2 and 1; it is
  used there only. (A vector of another length makes numpy raise ValueError.)
\<close>

definition exact_dot :: "real list \<Rightarrow> real list \<Rightarrow> real" where
  "exact_dot row v = sum_list (map (\<lambda>(a, b). a * b) (zip row v))"

definition exact_np_dot :: "real list list \<Rightarrow> real list \<Rightarrow> py_error + real list" where
  "exact_np_dot matrix v =
     (if matrix \<noteq> [] \<and> list_all (\<lambda>row. length row = length v) matrix
      then Inr (map (\<lambda>row. exact_dot row v) matrix)
      else Inl ValueError)"

text \<open>
  A retrieval system with four documents and the query vector \<open>[1, 0]\<close>: \<open>b\<close>
  scores 1 (abstract) and 0, \<open>a\<close> scores 1 on both sections, \<open>c\<close> scores 0 and
  1/2 (conclusions), \<open>d\<close> has no embedded section. In the index mapping \<open>b\<close> comes
  before \<open>a\<close>.
\<close>

definition sample_system :: "(unit, real list list, real list) retrieval_system" where
  "sample_system =
     \<lparr>embeddings = [[1, 0], [0, 1], [1, 0], [1, 0], [1 / 2, 1 / 2]],
      index_mapping =
        [(''b'', [''abstract'' \<mapsto> 0, ''conclusions'' \<mapsto> 1]),
         (''a'', [''abstract'' \<mapsto> 2, ''conclusions'' \<mapsto> 3]),
         (''c'', [''abstract'' \<mapsto> 1, ''conclusions'' \<mapsto> 4]),
         (''d'', Map.empty)],
      weight_date = False, weight_keywords = False, keyword_filter = None,
      client = Some (\<lambda>query. Inr [1, 0]),
      anthropic_client = None,
      python_eval = fragment_eval, parse_date = (\<lambda>arxiv_id. Inr ())\<rparr>"

text \<open>
  For the tree: a retriever that always returns the one document \<open>d1\<close>, no config
  file, a generation client that answers every request with one fixed text, the
  arguments of a root node at mode \<open>m\<close> with branching factor \<open>k\<close>, and the
  attributes the constructor sets from them.
\<close>

definition sample_env :: tree_env where
  "sample_env =
     \<lparr>retriever_retrieve = (\<lambda>h query yearstr top_k. Inr [''d1'']),
      retriever_get_document_texts =
        (\<lambda>h docs. Inr [\<lparr>doc_id = ''d1'', doc_abstract = ''A'', doc_conclusions = ''C''\<rparr>]),
      load_config = (\<lambda>path. None),
      connect = (\<lambda>key h request. Inl (ExternalError ''not connected''))\<rparr>"

definition reply_client :: "string \<Rightarrow> generation_client" where
  "reply_client reply h request = Inr [reply]"

definition sample_args :: "int \<Rightarrow> int \<Rightarrow> generation_client \<Rightarrow> init_args" where
  "sample_args m k c =
     \<lparr>arg_text = ''goal'', arg_year = 2024, arg_n = k, arg_temperature = 1 / 2,
      arg_background = None, arg_experiment = None, arg_mode = m,
      arg_generation_model = default_generation_model, arg_api_key = None,
      arg_generation_client = Some c, arg_config_path = default_config_path\<rparr>"

definition sample_self :: "int \<Rightarrow> int \<Rightarrow> generation_client \<Rightarrow> self_attrs" where
  "sample_self m k c =
     \<lparr>self_text = ''goal'', self_year = 2024, self_mode = m, self_n = k,
      self_temperature = 1 / 2, self_background = default_background,
      self_generation_model = default_generation_model, self_generation_client = Some c\<rparr>"

section \<open>Facts about the string primitives\<close>

lemma split_from_not_Nil: "split_from sep acc s \<noteq> []"
  by (induction sep acc s rule: split_from.induct) auto

lemma py_in_append: "py_in sub (pre @ sub @ post)"
proof (induction pre)
  case Nil
  show ?case by (cases "sub @ post") (auto simp: prefix_def intro: exI [of _ post])
next
  case (Cons a pre)
  then show ?case by simp
qed

lemma py_in_iff: "py_in sub s \<longleftrightarrow> (\<exists>pre post. s = pre @ sub @ post)"
proof
  show "py_in sub s \<Longrightarrow> \<exists>pre post. s = pre @ sub @ post"
  proof (induction s)
    case Nil
    then show ?case by simp
  next
    case (Cons c cs)
    from Cons.prems have "prefix sub (c # cs) \<or> py_in sub cs" by simp
    then show ?case
    proof
      assume "prefix sub (c # cs)"
      then obtain post where "c # cs = sub @ post" by (auto simp: prefix_def)
      then have "c # cs = [] @ sub @ post" by simp
      then show ?thesis by blast
    next
      assume "py_in sub cs"
      with Cons.IH obtain pre post where "cs = pre @ sub @ post" by blast
      then have "c # cs = (c # pre) @ sub @ post" by simp
      then show ?thesis by blast
    qed
  qed
next
  show "\<exists>pre post. s = pre @ sub @ post \<Longrightarrow> py_in sub s"
    using py_in_append by blast
qed

lemma hd_split_char: "hd (split_from [c] acc s) = rev acc @ takeWhile (\<lambda>x. x \<noteq> c) s"
  by (induction s arbitrary: acc) auto

lemma split_from_absent: "\<not> py_in sep s \<Longrightarrow> split_from sep acc s = [rev acc @ s]"
  by (induction s arbitrary: acc) auto

text \<open>
  Two occurrences of a separator whose characters are pairwise distinct cannot overlap:
  if \<open>sep\<close> starts the text and also starts behind a non-empty \<open>pre\<close>, then \<open>pre\<close> is
  at least as long as \<open>sep\<close>.
\<close>

lemma overlap_distinct:
  assumes d: "distinct sep" and ne: "sep \<noteq> []"
    and p1: "prefix sep (pre @ sep @ r)" and pne: "pre \<noteq> []"
  shows "length sep \<le> length pre"
proof (rule ccontr)
  assume "\<not> length sep \<le> length pre"
  then have lt: "length pre < length sep" by simp
  from p1 obtain z where z: "pre @ sep @ r = sep @ z" by (auto simp: prefix_def)
  have "(pre @ sep @ r) ! length pre = sep ! 0"
    using ne by (simp add: nth_append hd_conv_nth)
  moreover have "(sep @ z) ! length pre = sep ! length pre"
    using lt by (simp add: nth_append)
  ultimately have "sep ! length pre = sep ! 0" using z by simp
  with d lt ne have "length pre = 0"
    by (metis distinct_conv_nth length_greater_0_conv)
  with pne show False by simp
qed

text \<open>
  The last piece of a split is the text behind the last occurrence of the separator
  (for a separator of pairwise distinct characters, as \<open>astro-ph\<close> is).
\<close>

lemma last_split_from_after:
  assumes d: "distinct sep" and ne: "sep \<noteq> []" and nr: "\<not> py_in sep r"
  shows "last (split_from sep acc (pre @ sep @ r)) = r"
proof (induction "length pre" arbitrary: pre acc rule: less_induct)
  case less
  show ?case
  proof (cases pre)
    case Nil
    obtain c cs where sr: "sep @ r = c # cs" using ne by (cases sep) auto
    have "split_from sep acc (sep @ r) = rev acc # split_from sep [] r"
      using ne by (simp add: sr [symmetric] split_from.simps(2) [of sep acc c cs, unfolded sr [symmetric]])
    then show ?thesis using Nil nr by (simp add: split_from_absent split_from_not_Nil)
  next
    case (Cons p ps)
    show ?thesis
    proof (cases "prefix sep (pre @ sep @ r)")
      case True
      have le: "length sep \<le> length pre"
        using overlap_distinct [OF d ne True] Cons by simp
      define pre' where "pre' = drop (length sep) pre"
      have lt: "length pre' < length pre" using ne Cons le by (simp add: pre'_def)
      have dr: "drop (length sep) (pre @ sep @ r) = pre' @ sep @ r"
        using le by (simp add: pre'_def)
      have "split_from sep acc (pre @ sep @ r) = rev acc # split_from sep [] (pre' @ sep @ r)"
        using True ne Cons dr by simp
      then show ?thesis using less [OF lt] by (simp add: split_from_not_Nil)
    next
      case False
      have "split_from sep acc (pre @ sep @ r) = split_from sep (p # acc) (ps @ sep @ r)"
        using False Cons by simp
      then show ?thesis using less [of ps "p # acc"] Cons by simp
    qed
  qed
qed

lemma py_split_absent: "\<not> py_in sep s \<Longrightarrow> py_split s sep = [s]"
  by (simp add: py_split_def split_from_absent)

lemma py_split_last_after:
  "distinct sep \<Longrightarrow> sep \<noteq> [] \<Longrightarrow> \<not> py_in sep r \<Longrightarrow> last (py_split (pre @ sep @ r) sep) = r"
  by (simp add: py_split_def last_split_from_after)

lemma py_split_head: "hd (py_split s ''_'') = takeWhile (\<lambda>c. c \<noteq> CHR ''_'') s"
  by (simp add: py_split_def hd_split_char)

lemma py_in_suffix: "py_in sub (drop k s) \<Longrightarrow> py_in sub s"
proof -
  assume "py_in sub (drop k s)"
  then obtain pre post where "drop k s = pre @ sub @ post" by (auto simp: py_in_iff)
  then have "s = (take k s @ pre) @ sub @ post" by (metis append_take_drop_id append_assoc)
  then show ?thesis using py_in_append by metis
qed

section \<open>Facts about the temporal analyzer\<close>

lemmas regex_unfold = is_temporal_query_def temporal_pattern_def seqs_def words_def lit_def opt_def plus_def digits4_def lower_code_def

lemma milky_way_no_cue: "\<not> is_temporal_query ''what is the stellar mass of the Milky Way?''"
  by (simp add: regex_unfold)

lemma latest_results_cue: "is_temporal_query ''latest results''"
  by (simp add: regex_unfold)

lemma spec_year_filter_alphabet:
  assumes "spec_year_filter s"
  shows "set s \<subseteq> set ''year andot0123456789<>=!()''"
proof -
  define A where "A = set ''year andot0123456789<>=!()''"
  have words: "set ''year'' \<subseteq> A" "set '' and '' \<subseteq> A" "set '' or '' \<subseteq> A"
    "set ''not '' \<subseteq> A" "set ''('' \<subseteq> A" "set '')'' \<subseteq> A" "set '' '' \<subseteq> A"
    "{CHR '' ''} \<subseteq> A" "set ''0123456789'' \<subseteq> A"
    by (simp_all add: A_def)
  have ops: "set op \<subseteq> A" if "op \<in> set comparison_ops" for op
    using that by (auto simp: comparison_ops_def A_def)
  from assms have "set s \<subseteq> A"
  proof (induction rule: spec_year_filter.induct)
    case (comparison op ds w1 w2)
    have "set w1 \<subseteq> A" "set w2 \<subseteq> A" "set ds \<subseteq> A"
      using comparison words by blast+
    with ops [OF comparison(1)] words(1) show ?case by simp
  next
    case (conj a b)
    with words(2) show ?case by simp
  next
    case (disj a b)
    with words(3) show ?case by simp
  next
    case (neg a)
    with words(4) show ?case by simp
  next
    case (paren a)
    with words(5,6) show ?case by simp
  next
    case (pad_left a)
    with words(7) show ?case by simp
  next
    case (pad_right a)
    with words(7) show ?case by simp
  qed
  then show ?thesis by (simp only: A_def)
qed

lemma spec_year_filter_example: "spec_year_filter ''year >= 2015''"
  using spec_year_filter.comparison [of "''>=''" "''2015''" "'' ''" "'' ''"]
  by (simp add: comparison_ops_def)

lemma outside_grammar: "\<not> spec_year_filter ''len(query) > 3''"
  using spec_year_filter_alphabet [of "''len(query) > 3''"] by auto

lemma eval_reply_outside_grammar:
  "fragment_eval reply_outside_grammar =
     Inr (PyDict [(''expected_year_filter'', PyStr ''len(query) > 3''),
                  (''expected_recency_weight'', PyInt 8)])"
  by (simp add: fragment_eval_def py_eval_fragment_def reply_outside_grammar_def is_digit_def
      is_ident_char_def digits_value_def)

lemma eval_reply_no_expression: "fragment_eval reply_no_expression = Inl SyntaxError"
  by (simp add: fragment_eval_def py_eval_fragment_def reply_no_expression_def is_digit_def
      is_ident_char_def digits_value_def)

section \<open>Facts about scoring and ranking\<close>

lemma section_similarity_row:
  assumes "case mappings sec of None \<Rightarrow> True | Some row \<Rightarrow> 0 \<le> row \<and> row < int (length sims)"
  shows "section_similarity sims mappings sec = Inr (row_similarity sims mappings sec)"
proof (cases "mappings sec")
  case None
  then show ?thesis by (simp add: section_similarity_def row_similarity_def)
next
  case (Some row)
  with assms have "0 \<le> row" "row < int (length sims)" by simp_all
  then show ?thesis using Some
    by (simp add: section_similarity_def row_similarity_def py_index_def)
qed

lemma score_document_best:
  assumes "rows_exist items (length sims)" and "item \<in> set items"
  shows "score_document sims item = Inr (best_section sims item)"
proof -
  obtain doc_id mappings where item: "item = (doc_id, mappings)" by (cases item)
  from assms have
    a: "case mappings ''abstract'' of None \<Rightarrow> True | Some row \<Rightarrow> 0 \<le> row \<and> row < int (length sims)"
    and c: "case mappings ''conclusions'' of None \<Rightarrow> True | Some row \<Rightarrow> 0 \<le> row \<and> row < int (length sims)"
    by (auto simp: rows_exist_def list_all_iff item)
  have sim_a: "section_similarity sims mappings ''abstract'' =
      Inr (row_similarity sims mappings ''abstract'')"
    using a by (rule section_similarity_row [where sec = "''abstract''"])
  have sim_c: "section_similarity sims mappings ''conclusions'' =
      Inr (row_similarity sims mappings ''conclusions'')"
    using c by (rule section_similarity_row [where sec = "''conclusions''"])
  show ?thesis
    by (simp add: score_document_def item best_section_def sim_a sim_c)
qed

lemma score_documents_map:
  "(\<And>item. item \<in> set items \<Longrightarrow> score_document sims item = Inr (f item)) \<Longrightarrow>
   score_documents sims items acc = Inr (acc @ map f items)"
  by (induction items arbitrary: acc) simp_all

lemma score_documents_best:
  assumes "rows_exist items (length sims)"
  shows "score_documents sims items [] = Inr (map (best_section sims) items)"
  using score_documents_map [of items sims "best_section sims" "[]"]
    score_document_best [OF assms] by simp






lemma sample_dot: "exact_np_dot (embeddings sample_system) [1, 0] = Inr [1, 0, 1, 1, 1 / 2]"
  by (simp add: sample_system_def exact_np_dot_def exact_dot_def)

lemma sample_rows: "rows_exist (index_mapping sample_system) (length [1, 0, 1, 1, 1 / 2 :: real])"
  by (simp add: sample_system_def rows_exist_def)


lemma sample_scores:
  "score_documents [1, 0, 1, 1, 1 / 2 :: real] (index_mapping sample_system) [] =
     Inr [(''b'', ''abstract'', Some 1), (''a'', ''conclusions'', Some 1),
          (''c'', ''conclusions'', Some (1 / 2)), (''d'', ''conclusions'', None)]"
  by (simp add: sample_system_def score_document_def section_similarity_def py_index_def)

lemma sample_embedding: "get_query_embedding sample_system ''q'' = Inr [1, 0]"
  by (simp add: get_query_embedding_def sample_system_def)

lemma sample_ranking:
  "rank_and_filter exact_np_dot sample_system ''q'' [1, 0] () 10 False None =
     Inr (IdList [''b'', ''a'', ''c'', ''d''])"
  "rank_and_filter exact_np_dot sample_system ''q'' [1, 0] () 10 True None =
     Inr (ScoreDict [(''b'', Some 1), (''a'', Some 1), (''c'', Some (1 / 2)), (''d'', None)])"
  "rank_and_filter exact_np_dot sample_system ''q'' [1, 0] () 2 False None = Inr (IdList [''b'', ''a''])"
  "rank_and_filter exact_np_dot sample_system ''q'' [1, 0] () (- 1) False None =
     Inr (IdList [''b'', ''a'', ''c''])"
  "rank_and_filter exact_np_dot sample_system ''q'' [1, 0] () (- 3) False None = Inr (IdList [''b''])"
  by (simp_all add: rank_and_filter_def sample_dot sample_scores py_sorted_reverse_def
      py_slice_to_def py_dict_of_def) (simp_all add: sample_system_def)

lemma sample_retrieve:
  "retrieve exact_np_dot sample_system ''q'' None 10 False None =
     Inr (IdList [''b'', ''a'', ''c'', ''d''])"
  "retrieve exact_np_dot sample_system ''q'' None 10 True None =
     Inr (ScoreDict [(''b'', Some 1), (''a'', Some 1), (''c'', Some (1 / 2)), (''d'', None)])"
  "retrieve exact_np_dot sample_system ''q'' None (- 1) False None = Inr (IdList [''b'', ''a'', ''c''])"
  "retrieve exact_np_dot sample_system ''q'' (Some ''2301.00001'') 10 False None =
     Inr (IdList [''b'', ''a'', ''c'', ''d''])"
proof -
  have p: "parse_date sample_system arxiv_id = Inr ()" for arxiv_id
    by (simp add: sample_system_def)
  have w: "\<not> weight_date sample_system" by (simp add: sample_system_def)
  have pass: "retrieve exact_np_dot sample_system ''q'' arxiv_id top_k return_scores None =
      rank_and_filter exact_np_dot sample_system ''q'' [1, 0] () top_k return_scores
        (Some \<lparr>has_temporal_aspect = False, expected_year_filter = PyNone,
                expected_recency_weight = PyNone\<rparr>)" for arxiv_id top_k return_scores
    by (simp add: retrieve_def p w sample_embedding)
  have t: "rank_and_filter exact_np_dot sample_system query q d top_k return_scores (Some t) =
      rank_and_filter exact_np_dot sample_system query q d top_k return_scores None"
    for query q d top_k return_scores t
    by (simp add: rank_and_filter_def)
  show "retrieve exact_np_dot sample_system ''q'' None 10 False None =
       Inr (IdList [''b'', ''a'', ''c'', ''d''])"
    "retrieve exact_np_dot sample_system ''q'' None 10 True None =
       Inr (ScoreDict [(''b'', Some 1), (''a'', Some 1), (''c'', Some (1 / 2)), (''d'', None)])"
    "retrieve exact_np_dot sample_system ''q'' None (- 1) False None =
       Inr (IdList [''b'', ''a'', ''c''])"
    "retrieve exact_np_dot sample_system ''q'' (Some ''2301.00001'') 10 False None =
       Inr (IdList [''b'', ''a'', ''c'', ''d''])"
    by (simp_all only: pass t sample_ranking)
qed

lemma rank_and_filter_ignores_date:
  "rank_and_filter np_dot s1 query q d1 top_k return_scores t1 = Inr r1 \<Longrightarrow>
   rank_and_filter np_dot s2 query q d2 top_k return_scores t2 = Inr r2 \<Longrightarrow>
   embeddings s1 = embeddings s2 \<Longrightarrow> index_mapping s1 = index_mapping s2 \<Longrightarrow> r1 = r2"
  by (auto simp: rank_and_filter_def Let_def split: sum.splits if_splits option.splits)

lemma retrieve_returns_ranking:
  assumes "retrieve np_dot self query arxiv_id top_k return_scores time_result = Inr r"
  shows "\<exists>q d t. get_query_embedding self query = Inr q \<and> parse_date self arxiv_id = Inr d
     \<and> rank_and_filter np_dot self query q d top_k return_scores t = Inr r"
  using assms by (auto simp: retrieve_def split: sum.splits)

section \<open>Facts about the tree construction\<close>

lemma py_in_char: "py_in [c] s \<longleftrightarrow> c \<in> set s"
  by (induction s) auto

lemma length_split_char: "c \<in> set s \<Longrightarrow> 2 \<le> length (split_from [c] acc s)"
proof (induction s arbitrary: acc)
  case Nil
  then show ?case by simp
next
  case (Cons x xs)
  show ?case
  proof (cases "x = c")
    case True
    have "split_from [c] [] xs \<noteq> []" by (rule split_from_not_Nil)
    then have "1 \<le> length (split_from [c] [] xs)" by (cases "split_from [c] [] xs") simp_all
    with True show ?thesis by simp
  next
    case False
    with Cons show ?thesis by simp
  qed
qed

lemma well_formed_entry_braces:
  assumes "well_formed_entry line"
  shows "py_in ''}'' line" and "py_index (py_split line ''{'') 1 = Inr (py_split line ''{'' ! 1)"
proof -
  from assms have r: "CHR ''}'' \<in> set (dropWhile (\<lambda>c. c \<noteq> CHR ''{'') line)"
    by (simp add: well_formed_entry_def)
  then have "CHR ''}'' \<in> set line" using set_dropWhileD by fastforce
  then show "py_in ''}'' line" by (simp add: py_in_char)
  have "\<not> (\<forall>x \<in> set line. x \<noteq> CHR ''{'')"
  proof
    assume "\<forall>x \<in> set line. x \<noteq> CHR ''{''"
    then have "dropWhile (\<lambda>c. c \<noteq> CHR ''{'') line = []" by simp
    with r show False by simp
  qed
  then have "CHR ''{'' \<in> set line" by auto
  then have "2 \<le> length (py_split line ''{'')"
    unfolding py_split_def by (rule length_split_char)
  then show "py_index (py_split line ''{'') 1 = Inr (py_split line ''{'' ! 1)"
    by (simp add: py_index_def)
qed

lemma resolve_given: "arg_generation_client args = Some c \<Longrightarrow> resolve_client env args = Inr (Some c)"
  by (simp add: resolve_client_def)

lemma leaf_init:
  assumes "resolve_client env args = Inr c" and "\<not> arg_mode args < 3"
  shows "scienceTreeNode_init env h args =
     (Inr (TreeNode (arg_text args) [] (arg_year args) (arg_mode args) (arg_n args)
             (arg_temperature args) (initial_background args) (arg_generation_model args) []), h)"
  using assms by (simp add: scienceTreeNode_init.simps)

text \<open>The loop, given that every child can be built.\<close>

lemma generate_children_all:
  assumes built: "\<And>h child. \<exists>node h'. scienceTreeNode_init env h (child_args self child) = (Inr node, h')
            \<and> node_mode node = self_mode self + 1 \<and> node_text node = child"
    and lines: "\<forall>line \<in> set pairs. py_in ''}'' line \<longrightarrow> well_formed_entry line"
  shows "\<exists>new h'. generate_children env h self pairs children = (Inr (children @ new), h')
     \<and> map node_text new = map entry_text (filter well_formed_entry pairs)
     \<and> (\<forall>child \<in> set new. node_mode child = self_mode self + 1)"
  using lines
proof (induction pairs arbitrary: h children)
  case Nil
  then show ?case by simp
next
  case (Cons pair pairs)
  then have rest: "\<forall>line \<in> set pairs. py_in ''}'' line \<longrightarrow> well_formed_entry line" by simp
  show ?case
  proof (cases "py_in ''}'' pair")
    case False
    then have nw: "\<not> well_formed_entry pair" using well_formed_entry_braces(1) by blast
    from Cons.IH [OF rest, of h children] obtain new h' where
      "generate_children env h self pairs children = (Inr (children @ new), h')"
      "map node_text new = map entry_text (filter well_formed_entry pairs)"
      "\<forall>child \<in> set new. node_mode child = self_mode self + 1" by blast
    with False nw show ?thesis by simp
  next
    case True
    with Cons.prems have wf: "well_formed_entry pair" by simp
    note idx = well_formed_entry_braces(2) [OF wf]
    from built [of h "entry_text pair"] obtain node h1 where
      n: "scienceTreeNode_init env h (child_args self (entry_text pair)) = (Inr node, h1)"
      "node_mode node = self_mode self + 1" "node_text node = entry_text pair" by blast
    from Cons.IH [OF rest, of h1 "children @ [node]"] obtain new h' where
      r: "generate_children env h1 self pairs (children @ [node]) = (Inr ((children @ [node]) @ new), h')"
      "map node_text new = map entry_text (filter well_formed_entry pairs)"
      "\<forall>child \<in> set new. node_mode child = self_mode self + 1" by blast
    have "generate_children env h self (pair # pairs) children = (Inr (children @ node # new), h')"
      using True idx n(1) r(1) by (simp add: entry_text_def)
    moreover have "map node_text (node # new) = map entry_text (filter well_formed_entry (pair # pairs))"
      using wf n(3) r(2) by simp
    moreover have "\<forall>child \<in> set (node # new). node_mode child = self_mode self + 1"
      using n(2) r(3) by simp
    ultimately show ?thesis by blast
  qed
qed

lemma modes_index: "0 \<le> m \<Longrightarrow> m < 4 \<Longrightarrow> py_index modes m = Inr (modes ! nat m)"
  by (simp add: py_index_def modes_def)

lemma systems_index: "0 \<le> m \<Longrightarrow> m < 3 \<Longrightarrow> py_index (systems k) m = Inr (systems k ! nat m)"
  by (simp add: py_index_def systems_def)

text \<open>The first half of \<^verbatim>\<open>generate\<close> returns a message when the services answer.\<close>

lemma generate_message_returns:
  assumes wb: "well_behaved env c" and cl: "self_generation_client self = Some c"
    and m0: "0 \<le> self_mode self" and m3: "self_mode self < 3"
  shows "\<exists>docs message h3. generate_message env h self temperature k = (Inr (docs, message), h3)
     \<and> (\<forall>line \<in> set (py_split message ''\<newline>''). py_in ''}'' line \<longrightarrow> well_formed_entry line)"
proof -
  define yearstr where "yearstr = str_int (self_year self div 100) @ ''01.0001''"
  define h1 where "h1 = h @ [RetrieveCall (self_text self) yearstr 10]"
  from wb obtain docs where d: "retriever_retrieve env h (self_text self) yearstr 10 = Inr docs"
    unfolding well_behaved_def by blast
  define h2 where "h2 = h1 @ [GetDocumentTextsCall docs]"
  from wb obtain doc_texts where t: "retriever_get_document_texts env h1 docs = Inr doc_texts"
    unfolding well_behaved_def by blast
  define request where "request =
     \<lparr>req_model = self_generation_model self, req_max_tokens = 1000,
      req_temperature = Some (case temperature of None \<Rightarrow> self_temperature self | Some t \<Rightarrow> t),
      req_system = Some (self_background self @ ''\<newline>'' @ systems k ! nat (self_mode self)),
      req_content = input_text_of (modes ! nat (self_mode self)) (self_text self) doc_texts\<rparr>"
  from wb obtain message blocks where r: "c h2 request = Inr (message # blocks)"
    and l: "\<forall>line \<in> set (py_split message ''\<newline>''). py_in ''}'' line \<longrightarrow> well_formed_entry line"
    unfolding well_behaved_def by blast
  have mi: "py_index modes (self_mode self) = Inr (modes ! nat (self_mode self))"
    using m0 m3 by (simp add: modes_index)
  have si: "py_index (systems k) (self_mode self) = Inr (systems k ! nat (self_mode self))"
    using m0 m3 by (rule systems_index)
  have "generate_message env h self temperature k =
      (Inr (map doc_id doc_texts, message), h2 @ [CreateCall request])"
    using d t r
    by (simp add: generate_message_def Let_def mi si cl request_def h2_def h1_def yearstr_def)
  with l show ?thesis by blast
qed

lemma generate_from_children:
  assumes wb: "well_behaved env c" and cl: "self_generation_client self = Some c"
    and m0: "0 \<le> self_mode self" and m3: "self_mode self < 3"
    and built: "\<And>h child. \<exists>node h'. scienceTreeNode_init env h (child_args self child) = (Inr node, h')
            \<and> node_mode node = self_mode self + 1 \<and> node_text node = child"
  shows "\<exists>docs message h3 children h'.
       generate_message env h self temperature k = (Inr (docs, message), h3)
     \<and> generate env h self temperature k = (Inr (docs, children), h')
     \<and> map node_text children = map entry_text (filter well_formed_entry (py_split message ''\<newline>''))
     \<and> (\<forall>child \<in> set children. node_mode child = self_mode self + 1)"
proof -
  from generate_message_returns [OF wb cl m0 m3, of h temperature k] obtain docs message h3 where
    g: "generate_message env h self temperature k = (Inr (docs, message), h3)"
    and l: "\<forall>line \<in> set (py_split message ''\<newline>''). py_in ''}'' line \<longrightarrow> well_formed_entry line"
    by blast
  from generate_children_all [OF built l, of h3 "[]"] obtain new h' where
    r: "generate_children env h3 self (py_split message ''\<newline>'') [] = (Inr new, h')"
    "map node_text new = map entry_text (filter well_formed_entry (py_split message ''\<newline>''))"
    "\<forall>child \<in> set new. node_mode child = self_mode self + 1"
    by auto
  have "generate env h self temperature k = (Inr (docs, new), h')"
    by (simp add: generate.simps g r(1))
  with g r(2,3) show ?thesis by blast
qed

lemma init_returns:
  assumes wb: "well_behaved env c"
  shows "arg_generation_client args = Some c \<Longrightarrow> 0 \<le> arg_mode args \<Longrightarrow>
     \<exists>node h'. scienceTreeNode_init env h args = (Inr node, h')
       \<and> node_mode node = arg_mode args \<and> node_text node = arg_text args"
proof (induction "nat (3 - arg_mode args)" arbitrary: args h rule: less_induct)
  case less
  have rc: "resolve_client env args = Inr (Some c)" using less.prems(1) by (rule resolve_given)
  show ?case
  proof (cases "arg_mode args < 3")
    case False
    then show ?thesis using leaf_init [OF rc False] by simp
  next
    case True
    define self where "self =
       \<lparr>self_text = arg_text args, self_year = arg_year args, self_mode = arg_mode args,
        self_n = arg_n args, self_temperature = arg_temperature args,
        self_background = initial_background args,
        self_generation_model = arg_generation_model args,
        self_generation_client = Some c\<rparr>"
    have sm: "self_mode self = arg_mode args" and sc: "self_generation_client self = Some c"
      by (simp_all add: self_def)
    have built: "\<exists>node h'. scienceTreeNode_init env h (child_args self child) = (Inr node, h')
            \<and> node_mode node = self_mode self + 1 \<and> node_text node = child" for h child
    proof -
      have "nat (3 - arg_mode (child_args self child)) < nat (3 - arg_mode args)"
        using True by (simp add: child_args_def sm)
      moreover have "arg_generation_client (child_args self child) = Some c"
        by (simp add: child_args_def sc)
      moreover have "0 \<le> arg_mode (child_args self child)"
        using less.prems(2) by (simp add: child_args_def sm)
      ultimately have "\<exists>node h'. scienceTreeNode_init env h (child_args self child) = (Inr node, h')
         \<and> node_mode node = arg_mode (child_args self child)
         \<and> node_text node = arg_text (child_args self child)"
        by (rule less.hyps)
      then show ?thesis by (simp add: child_args_def)
    qed
    from generate_from_children [OF wb sc _ _ built, of h "Some (arg_temperature args)" "arg_n args"]
      less.prems(2) True sm
    obtain docs children h' where
      "generate env h self (Some (arg_temperature args)) (arg_n args) = (Inr (docs, children), h')"
      by auto
    then show ?thesis using rc True by (simp add: scienceTreeNode_init.simps self_def)
  qed
qed

lemma sample_env_well_behaved:
  assumes "\<forall>line \<in> set (py_split reply ''\<newline>''). py_in ''}'' line \<longrightarrow> well_formed_entry line"
  shows "well_behaved sample_env (reply_client reply)"
  using assms by (simp add: well_behaved_def sample_env_def reply_client_def)

lemma sample_generate_message:
  assumes "0 \<le> self_mode self" "self_mode self < 3"
    and "self_generation_client self = Some (reply_client reply)"
  shows "\<exists>h3. generate_message sample_env h self temperature k = (Inr ([''d1''], reply), h3)"
  using assms
  by (simp add: generate_message_def Let_def sample_env_def reply_client_def modes_index systems_index)

lemma sample_leaf:
  "scienceTreeNode_init sample_env h (child_args (sample_self 2 k c) child) =
     (Inr (TreeNode child [] 2024 3 k (1 / 2) default_background default_generation_model []), h)"
  by (simp add: scienceTreeNode_init.simps resolve_client_def child_args_def sample_self_def
      initial_background_def)

lemma sample_init_self:
  "scienceTreeNode_init sample_env h (sample_args 2 k c) =
     (case generate sample_env h (sample_self 2 k c) (Some (1 / 2)) k of
        (Inl e, h') \<Rightarrow> (Inl e, h')
      | (Inr (docs, children), h') \<Rightarrow>
          (Inr (TreeNode ''goal'' docs 2024 2 k (1 / 2) default_background
                  default_generation_model children), h'))"
  by (simp add: scienceTreeNode_init.simps resolve_client_def sample_args_def sample_self_def
      initial_background_def split: prod.splits sum.splits)

lemma sample_generate:
  "generate sample_env h (sample_self 2 k (reply_client reply)) temperature k' =
     (case generate_children sample_env
             (snd (generate_message sample_env h (sample_self 2 k (reply_client reply)) temperature k'))
             (sample_self 2 k (reply_client reply)) (py_split reply ''\<newline>'') [] of
        (Inl e, h') \<Rightarrow> (Inl e, h')
      | (Inr children, h') \<Rightarrow> (Inr ([''d1''], children), h'))"
proof -
  obtain h3 where "generate_message sample_env h (sample_self 2 k (reply_client reply)) temperature k' =
      (Inr ([''d1''], reply), h3)"
    using sample_generate_message [of "sample_self 2 k (reply_client reply)" reply h temperature k']
    by (auto simp: sample_self_def)
  then show ?thesis by (simp add: generate.simps)
qed

lemma two_entries_run:
  "fst (scienceTreeNode_init sample_env [] (sample_args 2 1 (reply_client ''{a}\<newline>{b}''))) =
     Inr (TreeNode ''goal'' [''d1''] 2024 2 1 (1 / 2) default_background default_generation_model
           [TreeNode ''a'' [] 2024 3 1 (1 / 2) default_background default_generation_model [],
            TreeNode ''b'' [] 2024 3 1 (1 / 2) default_background default_generation_model []])"
  by (simp add: sample_init_self sample_generate sample_leaf py_split_def py_index_def
      py_remove_char_def)

lemma unopened_brace_run:
  "fst (scienceTreeNode_init sample_env [] (sample_args 2 2 (reply_client ''1. An objective}''))) =
     Inl IndexError"
  by (simp add: sample_init_self sample_generate sample_leaf py_split_def py_index_def
      py_remove_char_def)

lemma three_lines_run:
  "fst (scienceTreeNode_init sample_env [] (sample_args 2 2 (reply_client ''{a}\<newline>no entry\<newline>{b}''))) =
     Inr (TreeNode ''goal'' [''d1''] 2024 2 2 (1 / 2) default_background default_generation_model
           [TreeNode ''a'' [] 2024 3 2 (1 / 2) default_background default_generation_model [],
            TreeNode ''b'' [] 2024 3 2 (1 / 2) default_background default_generation_model []])"
  by (simp add: sample_init_self sample_generate sample_leaf py_split_def py_index_def
      py_remove_char_def)

section \<open>Claims about app.py\<close>

text \<open>
  C8, as the specification states it, fails: for the id \<open>xastro-ph1_a.txt\<close> the code
  cuts at the last occurrence of \<open>astro-ph\<close> wherever it stands, while the stated rule
  strips a prefix only and leaves this id's head unchanged.
\<close>

theorem format_paper_link_prefix_counterexample:
  "format_paper_link ''xastro-ph1_a.txt'' = ''https://arxiv.org/abs/astro-ph/1''
   \<and> spec_paper_link ''xastro-ph1_a.txt'' = ''https://arxiv.org/abs/astro-ph/xastro-ph1''
   \<and> format_paper_link ''xastro-ph1_a.txt'' \<noteq> spec_paper_link ''xastro-ph1_a.txt''"
  by (simp add: format_paper_link_def py_split_def spec_paper_link_def spec_strip_prefix_def)

text \<open>
  C8 (amended). An id without \<open>.txt\<close> is appended unchanged to
  \<open>https://arxiv.org/abs/\<close>. For an id with \<open>.txt\<close>, let \<open>h\<close> be the substring before
  the first underscore: the link is \<open>https://arxiv.org/abs/astro-ph/\<close> followed by \<open>h\<close>
  when \<open>astro-ph\<close> does not occur in \<open>h\<close>, and by the text behind the last occurrence of
  \<open>astro-ph\<close> in \<open>h\<close> otherwise. Whenever \<open>astro-ph\<close> occurs in \<open>h\<close> at most as its
  prefix, this is the rule of the specification (prefix stripped).
\<close>

theorem format_paper_link_rule:
  fixes paper_id :: string
  defines "h \<equiv> takeWhile (\<lambda>c. c \<noteq> CHR ''_'') paper_id"
  shows "(\<not> py_in ''.txt'' paper_id \<longrightarrow>
            format_paper_link paper_id = ''https://arxiv.org/abs/'' @ paper_id)
   \<and> (py_in ''.txt'' paper_id \<and> \<not> py_in ''astro-ph'' h \<longrightarrow>
            format_paper_link paper_id = ''https://arxiv.org/abs/astro-ph/'' @ h)
   \<and> (py_in ''.txt'' paper_id \<and> h = pre @ ''astro-ph'' @ r \<and> \<not> py_in ''astro-ph'' r \<longrightarrow>
            format_paper_link paper_id = ''https://arxiv.org/abs/astro-ph/'' @ r)
   \<and> (\<not> py_in ''astro-ph'' (tl h) \<longrightarrow> format_paper_link paper_id = spec_paper_link paper_id)"
proof -
  have a: "\<not> py_in ''.txt'' paper_id \<Longrightarrow>
      format_paper_link paper_id = ''https://arxiv.org/abs/'' @ paper_id"
    by (simp add: format_paper_link_def)
  have b: "format_paper_link paper_id = ''https://arxiv.org/abs/astro-ph/'' @ h"
    if "py_in ''.txt'' paper_id" "\<not> py_in ''astro-ph'' h"
    using that by (simp add: format_paper_link_def py_split_head h_def [symmetric] py_split_absent)
  have c: "format_paper_link paper_id = ''https://arxiv.org/abs/astro-ph/'' @ r'"
    if "py_in ''.txt'' paper_id" "h = pre' @ ''astro-ph'' @ r'" "\<not> py_in ''astro-ph'' r'"
    for pre' r'
  proof -
    have "last (py_split (pre' @ ''astro-ph'' @ r') ''astro-ph'') = r'"
      by (rule py_split_last_after) (use that in simp_all)
    then show ?thesis using that
      by (simp add: format_paper_link_def py_split_head h_def [symmetric])
  qed
  have d: "format_paper_link paper_id = spec_paper_link paper_id"
    if n: "\<not> py_in ''astro-ph'' (tl h)"
  proof (cases "py_in ''.txt'' paper_id")
    case False
    then show ?thesis by (simp add: format_paper_link_def spec_paper_link_def)
  next
    case True
    then have ext: "py_in ''.txt'' paper_id" .
    show ?thesis
    proof (cases "prefix ''astro-ph'' h")
      case True
      then obtain r' where r: "h = ''astro-ph'' @ r'" by (auto simp: prefix_def)
      have "r' = drop 7 (tl h)" using r by simp
      with n have "\<not> py_in ''astro-ph'' r'" using py_in_suffix by metis
      then have "format_paper_link paper_id = ''https://arxiv.org/abs/astro-ph/'' @ r'"
        using c [of "[]" r'] ext r by simp
      then show ?thesis using r ext
        by (simp add: spec_paper_link_def spec_strip_prefix_def h_def [symmetric])
    next
      case False
      have "\<not> py_in ''astro-ph'' h"
      proof (cases h)
        case Nil
        then show ?thesis by simp
      next
        case (Cons x xs)
        then show ?thesis using False n by simp
      qed
      then show ?thesis using b ext False
        by (simp add: spec_paper_link_def spec_strip_prefix_def h_def [symmetric])
    qed
  qed
  show ?thesis using a b c d by blast
qed

text \<open>
  The two literal examples of the specification, obtained from the rule: the first id
  has no \<open>.txt\<close>, the second has the head \<open>astro-ph0001\<close>.
\<close>

theorem format_paper_link_rule_witness:
  "\<not> py_in ''.txt'' ''2301.00001''
   \<and> format_paper_link ''2301.00001'' = ''https://arxiv.org/abs/2301.00001''
   \<and> py_in ''.txt'' ''astro-ph0001_sec2.txt''
   \<and> \<not> py_in ''astro-ph'' ''0001''
   \<and> format_paper_link ''astro-ph0001_sec2.txt'' = ''https://arxiv.org/abs/astro-ph/0001''"
  using format_paper_link_rule [of "''2301.00001''"]
    format_paper_link_rule [of "''astro-ph0001_sec2.txt''" "[]" "''0001''"]
  by simp

section \<open>Claims about temporal.py\<close>

text \<open>
  C7. When the pattern finds no temporal cue in the query,
  \<^verbatim>\<open>analyze_temporal_query\<close> returns \<open>has_temporal_aspect = False\<close> with no year
  filter and no recency weight, and the list of requests sent to the language-model
  client is empty: the client is not invoked, whatever client and evaluator are given.
\<close>

theorem analyze_no_cue:
  "\<not> is_temporal_query query \<Longrightarrow>
   analyze_temporal_query py_eval llm query =
     (Inr \<lparr>has_temporal_aspect = False, expected_year_filter = PyNone,
           expected_recency_weight = PyNone\<rparr>, [])"
  by (simp add: analyze_temporal_query_def)

text \<open>
  The query of the specification, \<^verbatim>\<open>what is the stellar mass of the Milky Way?\<close>,
  has no cue: the analyzer returns the negative result without a request.
\<close>

theorem analyze_no_cue_witness:
  "\<not> is_temporal_query ''what is the stellar mass of the Milky Way?''
   \<and> analyze_temporal_query fragment_eval (Some (constant_client reply_outside_grammar))
         ''what is the stellar mass of the Milky Way?'' =
       (Inr \<lparr>has_temporal_aspect = False, expected_year_filter = PyNone,
             expected_recency_weight = PyNone\<rparr>, [])"
  using milky_way_no_cue analyze_no_cue [OF milky_way_no_cue] by simp

text \<open>
  C1, as the specification states it, fails. The query \<^verbatim>\<open>latest results\<close> has a cue;
  the client answers with a dict display whose filter \<^verbatim>\<open>len(query) > 3\<close> is no year
  filter of the grammar. The analyzer raises nothing and returns
  \<open>has_temporal_aspect = True\<close> with that filter.
\<close>

theorem analyze_accepts_outside_grammar:
  "is_temporal_query ''latest results''
   \<and> \<not> spec_year_filter ''len(query) > 3''
   \<and> analyze_temporal_query fragment_eval (Some (constant_client reply_outside_grammar))
         ''latest results'' =
       (Inr \<lparr>has_temporal_aspect = True, expected_year_filter = PyStr ''len(query) > 3'',
             expected_recency_weight = PyInt 8\<rparr>, [temporal_request ''latest results''])"
  using latest_results_cue outside_grammar
  by (simp add: analyze_temporal_query_def constant_client_def eval_reply_outside_grammar)

text \<open>
  C1 (amended). For a query with a cue, the analyzer sends one request and hands the
  first content block of the response to Python's evaluation as it is. An exception
  of the evaluation leaves the analyzer unchanged, and leaves \<^verbatim>\<open>retrieve\<close> when
  temporal weighting is on; when the evaluation returns a dict with the two keys, the
  values found there are returned with \<open>has_temporal_aspect = True\<close>, whatever they
  are. No check against the year-filter grammar takes place.
\<close>

theorem analyze_returns_evaluated_response:
  assumes "is_temporal_query query" and "llm = Some create"
    and "create (temporal_request query) = Inr (block # blocks)"
  shows "(py_eval block = Inl e \<longrightarrow>
            analyze_temporal_query py_eval llm query = (Inl e, [temporal_request query]))
   \<and> (py_eval block = Inr (PyDict d) \<and> map_of d ''expected_year_filter'' = Some f
        \<and> map_of d ''expected_recency_weight'' = Some w \<longrightarrow>
            analyze_temporal_query py_eval llm query =
              (Inr \<lparr>has_temporal_aspect = True, expected_year_filter = f,
                    expected_recency_weight = w\<rparr>, [temporal_request query]))
   \<and> (weight_date self \<and> python_eval self = py_eval \<and> anthropic_client self = llm
        \<and> parse_date self arxiv_id = Inr query_date
        \<and> get_query_embedding self query = Inr query_embedding
        \<and> py_eval block = Inl e \<longrightarrow>
            retrieve np_dot self query arxiv_id top_k return_scores None = Inl e)"
  using assms by (simp add: analyze_temporal_query_def retrieve_def)

text \<open>
  Two runs of the amended rule: the response outside the grammar, whose filter is
  returned, and a response that is no expression, whose SyntaxError leaves the
  analyzer and \<^verbatim>\<open>retrieve\<close>.
\<close>

theorem analyze_returns_evaluated_response_witness:
  "is_temporal_query ''latest results''
   \<and> constant_client reply_outside_grammar (temporal_request ''latest results'') =
       Inr [reply_outside_grammar]
   \<and> fragment_eval reply_outside_grammar =
       Inr (PyDict [(''expected_year_filter'', PyStr ''len(query) > 3''),
                    (''expected_recency_weight'', PyInt 8)])
   \<and> analyze_temporal_query fragment_eval (Some (constant_client reply_outside_grammar))
         ''latest results'' =
       (Inr \<lparr>has_temporal_aspect = True, expected_year_filter = PyStr ''len(query) > 3'',
             expected_recency_weight = PyInt 8\<rparr>, [temporal_request ''latest results''])
   \<and> fragment_eval reply_no_expression = Inl SyntaxError
   \<and> analyze_temporal_query fragment_eval (Some (constant_client reply_no_expression))
         ''latest results'' = (Inl SyntaxError, [temporal_request ''latest results''])
   \<and> retrieve exact_np_dot weighting_system ''latest results'' None 10 False None =
       Inl SyntaxError"
proof -
  have r1: "constant_client reply_outside_grammar (temporal_request ''latest results'') =
      Inr [reply_outside_grammar]"
    by (simp add: constant_client_def)
  have r2: "constant_client reply_no_expression (temporal_request ''latest results'') =
      Inr [reply_no_expression]"
    by (simp add: constant_client_def)
  have emb: "get_query_embedding weighting_system ''latest results'' = Inr [1, 0]"
    by (simp add: get_query_embedding_def weighting_system_def)
  note a = analyze_returns_evaluated_response [where query = "''latest results''"
        and create = "constant_client reply_outside_grammar"
        and block = reply_outside_grammar and blocks = "[]" and py_eval = fragment_eval
        and d = "[(''expected_year_filter'', PyStr ''len(query) > 3''),
                  (''expected_recency_weight'', PyInt 8)]"
        and f = "PyStr ''len(query) > 3''" and w = "PyInt 8", OF latest_results_cue refl r1]
  note b = analyze_returns_evaluated_response [where query = "''latest results''"
        and create = "constant_client reply_no_expression"
        and block = reply_no_expression and blocks = "[]" and py_eval = fragment_eval
        and e = SyntaxError and self = weighting_system and arxiv_id = None
        and query_date = "()" and query_embedding = "[1, 0]" and top_k = 10
        and return_scores = False and np_dot = exact_np_dot, OF latest_results_cue refl r2]
  have ws: "weight_date weighting_system" "python_eval weighting_system = fragment_eval"
    "anthropic_client weighting_system = Some (constant_client reply_no_expression)"
    "parse_date weighting_system None = Inr ()"
    by (simp_all add: weighting_system_def)
  show ?thesis
    using a b latest_results_cue r1 eval_reply_outside_grammar eval_reply_no_expression emb ws
    by simp
qed

section \<open>Claims about semantic\_search.py\<close>

text \<open>
  C5. Let \<open>sims\<close> be the vector of similarities the loop reads, the dot products
  that \<^verbatim>\<open>np.dot\<close> returned. When every row index of the index mapping is a
  position of \<open>sims\<close>, the scoring loop returns exactly one entry per document of
  the index mapping, in its order; the entry's score is the maximum of the
  similarity at the abstract row and the similarity at the conclusions row (a
  missing section counting as negative infinity), and its tag is the section with
  the strictly higher of the two.
\<close>

theorem scoring_keeps_best_section:
  assumes "rows_exist items (length sims)"
  shows "\<exists>results. score_documents sims items [] = Inr results
     \<and> map fst results = map fst items
     \<and> (\<forall>i < length items.
           snd (snd (results ! i)) =
             max (row_similarity sims (snd (items ! i)) ''abstract'')
                 (row_similarity sims (snd (items ! i)) ''conclusions'')
         \<and> (row_similarity sims (snd (items ! i)) ''abstract''
              > row_similarity sims (snd (items ! i)) ''conclusions''
              \<longrightarrow> fst (snd (results ! i)) = ''abstract'')
         \<and> (row_similarity sims (snd (items ! i)) ''abstract''
              < row_similarity sims (snd (items ! i)) ''conclusions''
              \<longrightarrow> fst (snd (results ! i)) = ''conclusions''))"
proof -
  have r: "score_documents sims items [] = Inr (map (best_section sims) items)"
    using assms by (rule score_documents_best)
  have "map fst (map (best_section sims) items) = map fst items"
    by (simp add: best_section_def)
  moreover have "\<forall>i < length items.
           snd (snd (map (best_section sims) items ! i)) =
             max (row_similarity sims (snd (items ! i)) ''abstract'')
                 (row_similarity sims (snd (items ! i)) ''conclusions'')
         \<and> (row_similarity sims (snd (items ! i)) ''abstract''
              > row_similarity sims (snd (items ! i)) ''conclusions''
              \<longrightarrow> fst (snd (map (best_section sims) items ! i)) = ''abstract'')
         \<and> (row_similarity sims (snd (items ! i)) ''abstract''
              < row_similarity sims (snd (items ! i)) ''conclusions''
              \<longrightarrow> fst (snd (map (best_section sims) items ! i)) = ''conclusions'')"
    by (auto simp: best_section_def max_def)
  ultimately show ?thesis using r by blast
qed

text \<open>
  The rule on the sample system, whose similarity vector is \<open>[1, 0, 1, 1, 1/2]\<close>:
  four documents, four entries, \<open>b\<close> won by its abstract and \<open>c\<close> by its
  conclusions.
\<close>

theorem scoring_keeps_best_section_witness:
  "rows_exist (index_mapping sample_system) (length [1, 0, 1, 1, 1 / 2 :: real])
   \<and> (\<exists>results. score_documents [1, 0, 1, 1, 1 / 2 :: real] (index_mapping sample_system) [] =
         Inr results
        \<and> map fst results = map fst (index_mapping sample_system))
   \<and> score_documents [1, 0, 1, 1, 1 / 2 :: real] (index_mapping sample_system) [] =
       Inr [(''b'', ''abstract'', Some 1), (''a'', ''conclusions'', Some 1),
            (''c'', ''conclusions'', Some (1 / 2)), (''d'', ''conclusions'', None)]"
  using scoring_keeps_best_section [OF sample_rows] sample_rows sample_scores
  by blast






text \<open>
  C10. Two runs of \<^verbatim>\<open>retrieve\<close> on the same matrix and index mapping that obtain
  the same query embedding and both return, return the same value, whatever the two
  \<^verbatim>\<open>arxiv_id\<close> arguments are (and whatever the temporal analysis and the other
  fields of the two systems are): \<open>query_date\<close> is computed and passed on, and
  never read. This holds for every behaviour \<open>np_dot\<close> of \<^verbatim>\<open>np.dot\<close>.
\<close>

theorem retrieve_ignores_cutoff:
  assumes "embeddings s1 = embeddings s2" and "index_mapping s1 = index_mapping s2"
    and "get_query_embedding s1 query = get_query_embedding s2 query"
    and "retrieve np_dot s1 query arxiv_id1 top_k return_scores time_result1 = Inr r1"
    and "retrieve np_dot s2 query arxiv_id2 top_k return_scores time_result2 = Inr r2"
  shows "r1 = r2"
proof -
  from retrieve_returns_ranking [OF assms(4)] obtain q1 d1 t1 where
    a: "get_query_embedding s1 query = Inr q1"
      "rank_and_filter np_dot s1 query q1 d1 top_k return_scores t1 = Inr r1" by blast
  from retrieve_returns_ranking [OF assms(5)] obtain q2 d2 t2 where
    b: "get_query_embedding s2 query = Inr q2"
      "rank_and_filter np_dot s2 query q2 d2 top_k return_scores t2 = Inr r2" by blast
  from a(1) b(1) assms(3) have "q1 = q2" by simp
  with b(2) have "rank_and_filter np_dot s2 query q1 d2 top_k return_scores t2 = Inr r2" by simp
  with a(2) show ?thesis using assms(1,2) by (rule rank_and_filter_ignores_date)
qed

text \<open>
  On the sample system: no cutoff and the cutoff \<open>2301.00001\<close> give the same
  ranking.
\<close>

theorem retrieve_ignores_cutoff_witness:
  "retrieve exact_np_dot sample_system ''q'' None 10 False None =
     Inr (IdList [''b'', ''a'', ''c'', ''d''])
   \<and> retrieve exact_np_dot sample_system ''q'' (Some ''2301.00001'') 10 False None =
       Inr (IdList [''b'', ''a'', ''c'', ''d''])
   \<and> (IdList [''b'', ''a'', ''c'', ''d''] :: real retrieval) = IdList [''b'', ''a'', ''c'', ''d'']"
  using retrieve_ignores_cutoff [OF refl refl refl sample_retrieve(1) sample_retrieve(4)]
    sample_retrieve(1,4) by simp

section \<open>Claims about sciencetree.py\<close>

text \<open>
  C6. A node constructed with mode 3 is a leaf whatever its branching factor: when
  the choice of the client raises, that exception leaves the constructor; otherwise
  the constructor returns a node with no children and no documents, and the history
  of calls is unchanged, so neither the retriever nor the generation client was
  called.
\<close>

theorem mode_three_is_leaf:
  assumes "arg_mode args = 3"
  shows "(resolve_client env args = Inl e \<longrightarrow> scienceTreeNode_init env h args = (Inl e, h))
   \<and> (resolve_client env args = Inr c \<longrightarrow>
        (\<exists>node. scienceTreeNode_init env h args = (Inr node, h)
           \<and> node_children node = [] \<and> node_docs node = []
           \<and> node_mode node = 3 \<and> node_n node = arg_n args \<and> node_text node = arg_text args))"
  using assms by (simp add: scienceTreeNode_init.simps)

text \<open>
  A node at mode 3 with branching factor 5 and a client that would offer two entries:
  no children, no calls.
\<close>

theorem mode_three_is_leaf_witness:
  "arg_mode (sample_args 3 5 (reply_client ''{a}\<newline>{b}'')) = 3
   \<and> resolve_client sample_env (sample_args 3 5 (reply_client ''{a}\<newline>{b}'')) =
       Inr (Some (reply_client ''{a}\<newline>{b}''))
   \<and> (\<exists>node. scienceTreeNode_init sample_env [] (sample_args 3 5 (reply_client ''{a}\<newline>{b}'')) =
         (Inr node, [])
        \<and> node_children node = [] \<and> node_docs node = [] \<and> node_n node = 5)"
proof -
  have m: "arg_mode (sample_args 3 5 (reply_client ''{a}\<newline>{b}'')) = 3"
    by (simp add: sample_args_def)
  have r: "resolve_client sample_env (sample_args 3 5 (reply_client ''{a}\<newline>{b}'')) =
       Inr (Some (reply_client ''{a}\<newline>{b}''))"
    by (simp add: resolve_client_def sample_args_def)
  have n: "arg_n (sample_args 3 5 (reply_client ''{a}\<newline>{b}'')) = 5"
    by (simp add: sample_args_def)
  from mode_three_is_leaf [OF m, of sample_env _ "[]" "Some (reply_client ''{a}\<newline>{b}'')"] r n
  have "\<exists>node. scienceTreeNode_init sample_env [] (sample_args 3 5 (reply_client ''{a}\<newline>{b}'')) =
         (Inr node, [])
        \<and> node_children node = [] \<and> node_docs node = [] \<and> node_n node = 5"
    by auto
  with m r show ?thesis by simp
qed

text \<open>
  C4 does not hold of the code. The response line \<^verbatim>\<open>1. An objective}\<close> has a
  closing brace and no opening brace: the test \<^verbatim>\<open>'{' and '}' in pair\<close> accepts it,
  \<^verbatim>\<open>pair.split('{')[1]\<close> raises IndexError, and the exception leaves the
  constructor of the node instead of the line being skipped.
\<close>

theorem closing_brace_without_opening_raises:
  "fst (scienceTreeNode_init sample_env [] (sample_args 2 2 (reply_client ''1. An objective}''))) =
     Inl IndexError"
  by (rule unopened_brace_run)

text \<open>
  C2, as the specification states it, fails. A node at mode 2 with branching factor
  1 whose response holds two well-formed entries gets two children: the count is
  not bounded by the branching factor.
\<close>

theorem more_entries_than_branching_factor:
  "map_sum id (\<lambda>node. (node_n node, map node_text (node_children node),
                        map node_mode (node_children node)))
     (fst (scienceTreeNode_init sample_env [] (sample_args 2 1 (reply_client ''{a}\<newline>{b}''))))
   = Inr (1, [''a'', ''b''], [3, 3])"
  by (simp add: two_entries_run)

text \<open>
  C2 (amended). For a node at a mode from 0 to 2 whose collaborators answer and
  whose responses hold a complete delimited segment on every line that has a
  closing brace, \<^verbatim>\<open>generate\<close> returns, with exactly one child per well-formed line
  of the response, in the order of the lines, each with the text cut from its line
  and at the mode of the parent plus one. The branching factor \<open>k\<close> plays no part
  in the count.
\<close>

theorem generate_one_child_per_entry:
  assumes "well_behaved env c" and "self_generation_client self = Some c"
    and "0 \<le> self_mode self" and "self_mode self < 3"
  shows "\<exists>docs message h3 children h'.
       generate_message env h self temperature k = (Inr (docs, message), h3)
     \<and> generate env h self temperature k = (Inr (docs, children), h')
     \<and> length children = length (filter well_formed_entry (py_split message ''\<newline>''))
     \<and> map node_text children = map entry_text (filter well_formed_entry (py_split message ''\<newline>''))
     \<and> (\<forall>child \<in> set children. node_mode child = self_mode self + 1)"
proof -
  have built: "\<exists>node h'. scienceTreeNode_init env h (child_args self child) = (Inr node, h')
            \<and> node_mode node = self_mode self + 1 \<and> node_text node = child" for h child
  proof -
    have "arg_generation_client (child_args self child) = Some c"
      using assms(2) by (simp add: child_args_def)
    moreover have "0 \<le> arg_mode (child_args self child)"
      using assms(3) by (simp add: child_args_def)
    ultimately have "\<exists>node h'. scienceTreeNode_init env h (child_args self child) = (Inr node, h')
       \<and> node_mode node = arg_mode (child_args self child)
       \<and> node_text node = arg_text (child_args self child)"
      by (rule init_returns [OF assms(1)])
    then show ?thesis by (simp add: child_args_def)
  qed
  from generate_from_children [OF assms built, of h temperature k]
  obtain docs message h3 children h' where
    g: "generate_message env h self temperature k = (Inr (docs, message), h3)"
      "generate env h self temperature k = (Inr (docs, children), h')"
      "map node_text children = map entry_text (filter well_formed_entry (py_split message ''\<newline>''))"
      "\<forall>child \<in> set children. node_mode child = self_mode self + 1"
    by blast
  from g(3) have "length children = length (filter well_formed_entry (py_split message ''\<newline>''))"
    using map_eq_imp_length_eq by fastforce
  with g show ?thesis by blast
qed

text \<open>
  A response of three lines, two of them entries, at mode 2 with branching factor 2:
  two children, \<open>a\<close> and \<open>b\<close>.
\<close>

theorem generate_one_child_per_entry_witness:
  "well_behaved sample_env (reply_client ''{a}\<newline>no entry\<newline>{b}'')
   \<and> self_generation_client (sample_self 2 2 (reply_client ''{a}\<newline>no entry\<newline>{b}'')) =
       Some (reply_client ''{a}\<newline>no entry\<newline>{b}'')
   \<and> self_mode (sample_self 2 2 (reply_client ''{a}\<newline>no entry\<newline>{b}'')) = 2
   \<and> (\<exists>docs children h'.
         generate sample_env [] (sample_self 2 2 (reply_client ''{a}\<newline>no entry\<newline>{b}''))
           None 2 = (Inr (docs, children), h')
        \<and> map node_text children = [''a'', ''b''])"
proof -
  define reply where "reply = ''{a}\<newline>no entry\<newline>{b}''"
  have lines: "py_split reply ''\<newline>'' = [''{a}'', ''no entry'', ''{b}'']"
    by (simp add: reply_def py_split_def)
  have wf: "filter well_formed_entry (py_split reply ''\<newline>'') = [''{a}'', ''{b}'']"
    by (simp add: lines well_formed_entry_def)
  have texts: "map entry_text [''{a}'', ''{b}''] = [''a'', ''b'']"
    by (simp add: entry_text_def py_split_def py_remove_char_def)
  have wb: "well_behaved sample_env (reply_client reply)"
    by (rule sample_env_well_behaved) (simp add: lines well_formed_entry_def)
  have cl: "self_generation_client (sample_self 2 2 (reply_client reply)) = Some (reply_client reply)"
    and md: "self_mode (sample_self 2 2 (reply_client reply)) = 2"
    by (simp_all add: sample_self_def)
  have m0: "0 \<le> self_mode (sample_self 2 2 (reply_client reply))"
    and m3: "self_mode (sample_self 2 2 (reply_client reply)) < 3"
    by (simp_all add: md)
  from generate_one_child_per_entry [OF wb cl m0 m3, of "[]" None 2]
  obtain docs message h3 children h' where
    g: "generate_message sample_env [] (sample_self 2 2 (reply_client reply)) None 2 =
        (Inr (docs, message), h3)"
      "generate sample_env [] (sample_self 2 2 (reply_client reply)) None 2 = (Inr (docs, children), h')"
      "map node_text children = map entry_text (filter well_formed_entry (py_split message ''\<newline>''))"
    by blast
  from sample_generate_message [OF m0 m3 cl, of "[]" None 2] g(1) have "message = reply" by auto
  with g(3) wf texts have "map node_text children = [''a'', ''b'']" by simp
  with g(2) have "\<exists>docs children h'.
         generate sample_env [] (sample_self 2 2 (reply_client reply)) None 2 = (Inr (docs, children), h')
        \<and> map node_text children = [''a'', ''b'']"
    by (intro exI conjI) assumption+
  with wb cl md show ?thesis unfolding reply_def by simp
qed

end
